theory Spec2Isabelle
  imports Main
begin

section \<open>GeoJSON to GPX: the data model of \<^verbatim>\<open>src/index.ts\<close>\<close>

subsection \<open>JavaScript values\<close>

text \<open>
  A feature's property bag is \<^verbatim>\<open>GeoJsonProperties = { [name: string]: any } | null\<close>, and the
  helpers receive it as an optional argument, so a bag is any JavaScript value. An object is
  given by its property read: \<open>JObj f\<close> is an object with \<open>obj[k] = f k\<close>, and \<open>f k\<close> is
  \<open>JUndefined\<close> for a key the object does not have. The type \<open>'n\<close> stands for the numbers
  of the host.
\<close>

datatype 'n jsval =
    JUndefined
  | JNull
  | JBool bool
  | JNum 'n
  | JStr string
  | JObj "string \<Rightarrow> 'n jsval"

text \<open>The \<^verbatim>\<open>typeof\<close> operator; \<^verbatim>\<open>typeof null\<close> is \<^verbatim>\<open>'object'\<close>.\<close>

fun typeof :: "'n jsval \<Rightarrow> string" where
  "typeof JUndefined = ''undefined''"
| "typeof JNull = ''object''"
| "typeof (JBool b) = ''boolean''"
| "typeof (JNum n) = ''number''"
| "typeof (JStr s) = ''string''"
| "typeof (JObj f) = ''object''"

text \<open>
  The argument of \<^verbatim>\<open>createTagInParentElement\<close> has type
  \<^verbatim>\<open>string | number | undefined\<close>.
\<close>

datatype 'n content = Undefined | Str string | Num 'n

text \<open>
  \<^verbatim>\<open>String(content)\<close>. The decimal text of a number is the host's business: every function
  that formats a number takes the host's conversion \<open>S\<close> as a parameter.
\<close>

fun String_js :: "('n \<Rightarrow> string) \<Rightarrow> 'n content \<Rightarrow> string" where
  "String_js S Undefined = ''undefined''"
| "String_js S (Str s) = s"
| "String_js S (Num n) = S n"

subsection \<open>The document tree\<close>

text \<open>
  What the DOM calls of the source build: elements with a namespace, a tag name, attributes in
  the order they were set and child nodes in the order they were appended; text nodes; and a
  document whose children are the processing instruction and the root element. Every node of
  the source is appended to its parent once, after its own children are complete, so a tree of
  values stands for the tree of objects.
\<close>

datatype element =
  Element (namespaceURI: string) (tagName: string)
          (attributes: "(string \<times> string) list") (childNodes: "node list")
and node =
    ElementNode element
  | TextNode string

datatype docnode =
    ProcessingInstruction string string
  | DocElement element

datatype XMLDocument = Document (docChildren: "docnode list")

text \<open>\<^verbatim>\<open>el.setAttribute(name, value)\<close> replaces the value of an attribute that is there and adds
  one that is not.\<close>

fun setAttr :: "string \<Rightarrow> string \<Rightarrow> (string \<times> string) list \<Rightarrow> (string \<times> string) list" where
  "setAttr k v [] = [(k, v)]"
| "setAttr k v ((k', v') # as) = (if k' = k then (k, v) # as else (k', v') # setAttr k v as)"

fun setAttribute :: "element \<Rightarrow> string \<Rightarrow> string \<Rightarrow> element" where
  "setAttribute (Element ns t as cs) k v = Element ns t (setAttr k v as) cs"

fun appendChild :: "element \<Rightarrow> node \<Rightarrow> element" where
  "appendChild (Element ns t as cs) c = Element ns t as (cs @ [c])"

fun docAppendChild :: "XMLDocument \<Rightarrow> docnode \<Rightarrow> XMLDocument" where
  "docAppendChild (Document ns) n = Document (ns @ [n])"

text \<open>\<^verbatim>\<open>document.implementation.createDocument(ns, '')\<close>: a document with no children.\<close>

definition createDocument :: XMLDocument where
  "createDocument = Document []"

subsection \<open>The input: options and GeoJSON\<close>

record Bounds =
  minlat :: string
  minlon :: string
  maxlat :: string
  maxlon :: string

record Copyright =
  copyright_author :: "string option"
  copyright_year :: "string option"
  copyright_license :: "string option"

text \<open>
  The interface declares \<^verbatim>\<open>href: string\<close>, and the link factory guards \<^verbatim>\<open>!href\<close>, which
  holds of an absent \<^verbatim>\<open>href\<close> as of an empty one; the model admits both.
\<close>

record Link =
  link_href :: "string option"
  link_text :: "string option"
  link_type :: "string option"

record Person =
  person_name :: "string option"
  person_email :: "string option"
  person_link :: "Link option"

record MetaData =
  meta_name :: "string option"
  meta_desc :: "string option"
  meta_author :: "Person option"
  meta_copyright :: "Copyright option"
  meta_link :: "Link option"
  meta_time :: "string option"
  meta_keywords :: "string option"
  meta_bounds :: "Bounds option"

record Options =
  creator :: "string option"
  version :: "string option"
  metadata :: "MetaData option"

text \<open>\<^verbatim>\<open>Position = number[]\<close>: longitude, latitude, then optionally elevation and time.\<close>

type_synonym 'n Position = "'n list"

text \<open>
  The geometries of \<^verbatim>\<open>@types/geojson\<close> by their \<^verbatim>\<open>type\<close> tag. The source reads the
  coordinates of the first four only; \<open>OtherGeometry t\<close> is a geometry of any other type \<open>t\<close>
  (\<^verbatim>\<open>MultiPolygon\<close>, \<^verbatim>\<open>GeometryCollection\<close>).
\<close>

datatype 'n Geometry =
    Point "'n Position"
  | MultiPoint "'n Position list"
  | LineString "'n Position list"
  | MultiLineString "'n Position list list"
  | Polygon "'n Position list list"
  | OtherGeometry string

record 'n feature =
  geometry :: "'n Geometry"
  properties :: "'n jsval"

text \<open>The top-level input by its \<^verbatim>\<open>type\<close> tag; \<open>OtherType t\<close> is an input of any other type.\<close>

datatype 'n GeoJson =
    Feature "'n feature"
  | FeatureCollection "'n feature list"
  | OtherType string

section \<open>The conversion\<close>

definition gpx_ns :: string where
  "gpx_ns = ''http://www.topografix.com/GPX/1/1''"

definition defaultPackageName :: string where
  "defaultPackageName = ''@dwayneparton/geojson-to-gpx''"

definition createElementWithNS :: "string \<Rightarrow> element" where
  "createElementWithNS tag = Element gpx_ns tag [] []"

text \<open>Creates a new tag with content and appends it to the parent (lines 85--93).\<close>

definition createTagInParentElement ::
  "('n \<Rightarrow> string) \<Rightarrow> element \<Rightarrow> string \<Rightarrow> 'n content \<Rightarrow> element" where
  "createTagInParentElement S parent tag content' =
     (if content' = Undefined then parent
      else
        let element = createElementWithNS tag;
            contentEl = TextNode (String_js S content');
            element = appendChild element contentEl
        in appendChild parent (ElementNode element))"

text \<open>
  One round of the \<^verbatim>\<open>supports.forEach\<close> of \<^verbatim>\<open>addSupportedPropertiesFromObject\<close>
  (lines 100--105). The test
  \<^verbatim>\<open>value && typeof value === 'string'\<close> holds of the non-empty strings: the empty string is
  the one falsy string.
\<close>

definition addSupportedProperty ::
  "('n \<Rightarrow> string) \<Rightarrow> string list \<Rightarrow> (string \<Rightarrow> 'n jsval) \<Rightarrow> element \<Rightarrow> string \<Rightarrow> element" where
  "addSupportedProperty S supports obj el key =
     (let val = obj key in
      case val of
        JStr s \<Rightarrow>
          if s \<noteq> [] \<and> typeof val = ''string'' \<and> key \<in> set supports
          then createTagInParentElement S el key (Str s)
          else el
      | _ \<Rightarrow> el)"

text \<open>
  Takes supported properties, creates node, and appends to parent (lines 98--107). The test
  \<^verbatim>\<open>properties && typeof properties === 'object'\<close> holds of the objects and not of
  \<^verbatim>\<open>null\<close>, which is falsy.
\<close>

definition addSupportedPropertiesFromObject ::
  "('n \<Rightarrow> string) \<Rightarrow> element \<Rightarrow> string list \<Rightarrow> 'n jsval \<Rightarrow> element" where
  "addSupportedPropertiesFromObject S el supports props =
     (case props of
        JObj obj \<Rightarrow> foldl (addSupportedProperty S supports obj) el supports
      | _ \<Rightarrow> el)"

text \<open>A \<^verbatim>\<open>Link\<close> read as a property bag, as \<^verbatim>\<open>createLinkInParentElement\<close> passes it on.\<close>

definition opt_jsval :: "string option \<Rightarrow> 'n jsval" where
  "opt_jsval x = (case x of None \<Rightarrow> JUndefined | Some s \<Rightarrow> JStr s)"

definition Link_object :: "Link \<Rightarrow> 'n jsval" where
  "Link_object l =
     JObj (\<lambda>k. if k = ''href'' then opt_jsval (link_href l)
               else if k = ''text'' then opt_jsval (link_text l)
               else if k = ''type'' then opt_jsval (link_type l)
               else JUndefined)"

text \<open>Creates a link element (lines 113--122).\<close>

definition createLinkInParentElement :: "('n \<Rightarrow> string) \<Rightarrow> element \<Rightarrow> Link \<Rightarrow> element" where
  "createLinkInParentElement S parent props =
     (case link_href props of
        None \<Rightarrow> parent
      | Some href \<Rightarrow>
          if href = [] then parent
          else
            let el = createElementWithNS ''link'';
                el = setAttribute el ''href'' href;
                el = addSupportedPropertiesFromObject S el [''text'', ''type''] (Link_object props)
            in appendChild parent (ElementNode el))"

text \<open>Creates a \<^verbatim>\<open>trk\<close> from the properties (lines 137--142).\<close>

definition createTrk :: "('n \<Rightarrow> string) \<Rightarrow> 'n jsval \<Rightarrow> element" where
  "createTrk S props =
     (let el = createElementWithNS ''trk'';
          supports = [''name'', ''desc'', ''src'', ''type'']
      in addSupportedPropertiesFromObject S el supports props)"

text \<open>
  The destructuring \<^verbatim>\<open>const [lon, lat, ele, time] = position\<close>: a slot beyond the end of the
  array is \<^verbatim>\<open>undefined\<close>.
\<close>

definition slot :: "'n Position \<Rightarrow> nat \<Rightarrow> 'n content" where
  "slot position i = (if i < length position then Num (position ! i) else Undefined)"

text \<open>\<^verbatim>\<open>wpt\<close> and \<^verbatim>\<open>trkpt\<close> are compatible elements; \<open>ty\<close> is one of the two tags
  (lines 157--167).\<close>

definition createPt :: "('n \<Rightarrow> string) \<Rightarrow> string \<Rightarrow> 'n Position \<Rightarrow> 'n jsval \<Rightarrow> element" where
  "createPt S ty position props =
     (let lon = slot position 0; lat = slot position 1;
          ele = slot position 2; time = slot position 3;
          el = createElementWithNS ty;
          el = setAttribute el ''lat'' (String_js S lat);
          el = setAttribute el ''lon'' (String_js S lon);
          el = createTagInParentElement S el ''ele'' ele;
          el = createTagInParentElement S el ''time'' time;
          supports = [''name'', ''desc'', ''src'', ''type'']
      in addSupportedPropertiesFromObject S el supports props)"

text \<open>Creates a \<^verbatim>\<open>trkseg\<close> from an array of points; the points get no properties
  (lines 186--192).\<close>

definition createTrkSeg :: "('n \<Rightarrow> string) \<Rightarrow> 'n Position list \<Rightarrow> element" where
  "createTrkSeg S coordinates =
     (let el = createElementWithNS ''trkseg''
      in foldl (\<lambda>el point. appendChild el (ElementNode (createPt S ''trkpt'' point JUndefined)))
           el coordinates)"

text \<open>The two arrays that \<^verbatim>\<open>interpretFeature\<close> pushes to (lines 79--80).\<close>

record collected =
  wpts :: "element list"
  trks :: "element list"

text \<open>Interpret a GeoJSON feature (lines 198--245); the cases are in the order of the
  \<^verbatim>\<open>switch\<close>.\<close>

definition interpretFeature :: "('n \<Rightarrow> string) \<Rightarrow> collected \<Rightarrow> 'n feature \<Rightarrow> collected" where
  "interpretFeature S st feature =
     (let props = properties feature in
      case geometry feature of
        Polygon cs \<Rightarrow> st
      | Point coordinates \<Rightarrow>
          st\<lparr>wpts := wpts st @ [createPt S ''wpt'' coordinates props]\<rparr>
      | MultiPoint coordinates \<Rightarrow>
          foldl (\<lambda>st coord. st\<lparr>wpts := wpts st @ [createPt S ''wpt'' coord props]\<rparr>)
            st coordinates
      | LineString coordinates \<Rightarrow>
          let lineTrk = createTrk S props;
              trkseg = createTrkSeg S coordinates;
              lineTrk = appendChild lineTrk (ElementNode trkseg)
          in st\<lparr>trks := trks st @ [lineTrk]\<rparr>
      | MultiLineString coordinates \<Rightarrow>
          let trk = createTrk S props;
              trk = foldl (\<lambda>trk pos. appendChild trk (ElementNode (createTrkSeg S pos)))
                      trk coordinates
          in st\<lparr>trks := trks st @ [trk]\<rparr>
      | OtherGeometry t \<Rightarrow> st)"

text \<open>An optional string field as the content of a tag.\<close>

definition opt_content :: "string option \<Rightarrow> 'n content" where
  "opt_content x = (case x of None \<Rightarrow> Undefined | Some s \<Rightarrow> Str s)"

text \<open>
  The metadata block of \<^verbatim>\<open>GeoJsonToGpx\<close> (lines 251--280), in three parts: the
  \<^verbatim>\<open>author\<close> element (lines 257--262), built
  when \<^verbatim>\<open>meta.author\<close> is an object; the \<^verbatim>\<open>copyright\<close> element (lines 266--271), built
  when \<^verbatim>\<open>meta.copyright\<close> is an object; and the \<^verbatim>\<open>metadata\<close> element itself. An optional
  field of the options is an object exactly when it is there.
\<close>

definition createAuthor :: "('n \<Rightarrow> string) \<Rightarrow> Person \<Rightarrow> element" where
  "createAuthor S person =
     (let author = createElementWithNS ''author'';
          author = createTagInParentElement S author ''name'' (opt_content (person_name person));
          author = createTagInParentElement S author ''email'' (opt_content (person_email person))
      in case person_link person of
           None \<Rightarrow> author
         | Some l \<Rightarrow> createLinkInParentElement S author l)"

definition createCopyright :: "('n \<Rightarrow> string) \<Rightarrow> Copyright \<Rightarrow> element" where
  "createCopyright S c =
     (let copyright = createElementWithNS ''copyright'';
          copyright = (case copyright_author c of
                         None \<Rightarrow> copyright
                       | Some a \<Rightarrow> if a = [] then copyright
                                  else setAttribute copyright ''author'' a);
          copyright = createTagInParentElement S copyright ''year''
                        (opt_content (copyright_year c))
      in createTagInParentElement S copyright ''license'' (opt_content (copyright_license c)))"

definition createMetadata :: "('n \<Rightarrow> string) \<Rightarrow> MetaData \<Rightarrow> element" where
  "createMetadata S meta =
     (let metadata = createElementWithNS ''metadata'';
          metadata = createTagInParentElement S metadata ''name'' (opt_content (meta_name meta));
          metadata = createTagInParentElement S metadata ''desc'' (opt_content (meta_desc meta));
          metadata = (case meta_author meta of
                        None \<Rightarrow> metadata
                      | Some person \<Rightarrow>
                          appendChild metadata (ElementNode (createAuthor S person)));
          metadata = (case meta_copyright meta of
                        None \<Rightarrow> metadata
                      | Some c \<Rightarrow> appendChild metadata (ElementNode (createCopyright S c)));
          metadata = (case meta_link meta of
                        None \<Rightarrow> metadata
                      | Some l \<Rightarrow> createLinkInParentElement S metadata l);
          metadata = createTagInParentElement S metadata ''time'' (opt_content (meta_time meta))
      in createTagInParentElement S metadata ''keywords'' (opt_content (meta_keywords meta)))"

text \<open>\<^verbatim>\<open>options?.creator || defaultPackageName\<close>: an absent and an empty creator give the
  default.\<close>

definition creatorOf :: "Options option \<Rightarrow> string" where
  "creatorOf options =
     (case options of
        None \<Rightarrow> defaultPackageName
      | Some opts \<Rightarrow>
          (case creator opts of
             None \<Rightarrow> defaultPackageName
           | Some c \<Rightarrow> if c = [] then defaultPackageName else c))"

text \<open>The dispatch on the \<^verbatim>\<open>type\<close> of the input (lines 283--300).\<close>

definition processGeoJson :: "('n \<Rightarrow> string) \<Rightarrow> 'n GeoJson \<Rightarrow> collected \<Rightarrow> collected" where
  "processGeoJson S geoJson st =
     (case geoJson of
        Feature f \<Rightarrow> interpretFeature S st f
      | FeatureCollection features \<Rightarrow> foldl (interpretFeature S) st features
      | OtherType t \<Rightarrow> st)"

text \<open>
  The root element as \<^verbatim>\<open>GeoJsonToGpx\<close> completes it: created with its two attributes
  (lines 73--75), given the metadata (lines 251--280), then the waypoints and the tracks
  (lines 304--305). The document (lines 59--61 and 308) follows.
\<close>

definition gpxElement :: "('n \<Rightarrow> string) \<Rightarrow> 'n GeoJson \<Rightarrow> Options option \<Rightarrow> element" where
  "gpxElement S geoJson options =
     (let gpx = createElementWithNS ''gpx'';
          gpx = setAttribute gpx ''version'' ''1.1'';
          gpx = setAttribute gpx ''creator'' (creatorOf options);
          st = \<lparr>wpts = [], trks = []\<rparr>;
          gpx = (case options of
                   None \<Rightarrow> gpx
                 | Some opts \<Rightarrow>
                     (case metadata opts of
                        None \<Rightarrow> gpx
                      | Some meta \<Rightarrow> appendChild gpx (ElementNode (createMetadata S meta))));
          st = processGeoJson S geoJson st;
          gpx = foldl (\<lambda>gpx wpt. appendChild gpx (ElementNode wpt)) gpx (wpts st)
      in foldl (\<lambda>gpx trk. appendChild gpx (ElementNode trk)) gpx (trks st))"

definition GeoJsonToGpx :: "('n \<Rightarrow> string) \<Rightarrow> 'n GeoJson \<Rightarrow> Options option \<Rightarrow> XMLDocument" where
  "GeoJsonToGpx S geoJson options =
     (let doc = createDocument;
          instruct = ProcessingInstruction ''xml'' ''version=\"1.0\" encoding=\"UTF-8\"'';
          doc = docAppendChild doc instruct;
          gpx = gpxElement S geoJson options
      in docAppendChild doc (DocElement gpx))"

section \<open>Null and undefined in the input\<close>

text \<open>
  The functions above are the conversion on values of the declared types. JavaScript lets a
  caller pass \<^verbatim>\<open>null\<close> or \<^verbatim>\<open>undefined\<close> where an object or an array is declared (and
  RFC 7946 allows a feature whose \<^verbatim>\<open>geometry\<close> is \<^verbatim>\<open>null\<close>); the source then raises a
  \<^verbatim>\<open>TypeError\<close> when it reads a property of such a value, destructures it or calls
  \<^verbatim>\<open>forEach\<close> on it. This section models these runs: the input types are the declared ones
  with \<open>Null\<close> and \<open>Undef\<close> admitted wherever the source dereferences a value, and each
  function returns the error or the result. An exception leaves \<^verbatim>\<open>GeoJsonToGpx\<close>, which has
  no \<^verbatim>\<open>try\<close>, so the first error is the outcome of the whole run.
\<close>

datatype 'a nullable = Null | Undef | Val 'a

datatype js_error = TypeError

datatype 'n Geometry_js =
    Point_js "'n Position nullable"
  | MultiPoint_js "'n Position nullable list nullable"
  | LineString_js "'n Position nullable list nullable"
  | MultiLineString_js "'n Position nullable list nullable list nullable"
  | Polygon_js "'n Position list list nullable"
  | OtherGeometry_js string

record 'n feature_js =
  geometry_js :: "'n Geometry_js nullable"
  properties_js :: "'n jsval"

datatype 'n GeoJson_js =
    Feature_js "'n feature_js"
  | FeatureCollection_js "'n feature_js nullable list nullable"
  | OtherType_js string

record Person_js =
  person_name_js :: "string option"
  person_email_js :: "string option"
  person_link_js :: "Link nullable"

record MetaData_js =
  meta_name_js :: "string option"
  meta_desc_js :: "string option"
  meta_author_js :: "Person_js nullable"
  meta_copyright_js :: "Copyright nullable"
  meta_link_js :: "Link nullable"
  meta_time_js :: "string option"
  meta_keywords_js :: "string option"
  meta_bounds_js :: "Bounds option"

record Options_js =
  creator_js :: "string option"
  version_js :: "string option"
  metadata_js :: "MetaData_js nullable"

text \<open>\<^verbatim>\<open>xs.forEach\<close> with a callback that may raise: the first error ends the loop.\<close>

fun forEach :: "('s \<Rightarrow> 'a \<Rightarrow> js_error + 's) \<Rightarrow> 's \<Rightarrow> 'a list \<Rightarrow> js_error + 's" where
  "forEach f s [] = Inr s"
| "forEach f s (x # xs) = (case f s x of Inl e \<Rightarrow> Inl e | Inr s' \<Rightarrow> forEach f s' xs)"

text \<open>Line 158 destructures \<^verbatim>\<open>position\<close> as an array: \<^verbatim>\<open>null\<close> and \<^verbatim>\<open>undefined\<close> are not
  iterable.\<close>

definition createPt_js ::
  "('n \<Rightarrow> string) \<Rightarrow> string \<Rightarrow> 'n Position nullable \<Rightarrow> 'n jsval \<Rightarrow> js_error + element" where
  "createPt_js S ty position props =
     (case position of
        Null \<Rightarrow> Inl TypeError
      | Undef \<Rightarrow> Inl TypeError
      | Val p \<Rightarrow> Inr (createPt S ty p props))"

text \<open>Line 188 calls \<^verbatim>\<open>coordinates.forEach\<close>.\<close>

definition createTrkSeg_js ::
  "('n \<Rightarrow> string) \<Rightarrow> 'n Position nullable list nullable \<Rightarrow> js_error + element" where
  "createTrkSeg_js S coordinates =
     (let el = createElementWithNS ''trkseg'' in
      case coordinates of
        Null \<Rightarrow> Inl TypeError
      | Undef \<Rightarrow> Inl TypeError
      | Val points \<Rightarrow>
          forEach
            (\<lambda>el point.
               case createPt_js S ''trkpt'' point JUndefined of
                 Inl e \<Rightarrow> Inl e
               | Inr pt \<Rightarrow> Inr (appendChild el (ElementNode pt)))
            el points)"

text \<open>
  Line 199 destructures \<^verbatim>\<open>feature\<close> and line 200 destructures \<^verbatim>\<open>geometry\<close>; lines 215 and
  233 call \<^verbatim>\<open>geometry.coordinates.forEach\<close>. The coordinates of a \<^verbatim>\<open>Polygon\<close> and of a
  geometry of another type are not read.
\<close>

definition interpretFeature_js ::
  "('n \<Rightarrow> string) \<Rightarrow> collected \<Rightarrow> 'n feature_js nullable \<Rightarrow> js_error + collected" where
  "interpretFeature_js S st feature =
     (case feature of
        Null \<Rightarrow> Inl TypeError
      | Undef \<Rightarrow> Inl TypeError
      | Val f \<Rightarrow>
          (let props = properties_js f in
           case geometry_js f of
             Null \<Rightarrow> Inl TypeError
           | Undef \<Rightarrow> Inl TypeError
           | Val (Polygon_js cs) \<Rightarrow> Inr st
           | Val (Point_js coordinates) \<Rightarrow>
               (case createPt_js S ''wpt'' coordinates props of
                  Inl e \<Rightarrow> Inl e
                | Inr pt \<Rightarrow> Inr (st\<lparr>wpts := wpts st @ [pt]\<rparr>))
           | Val (MultiPoint_js coordinates) \<Rightarrow>
               (case coordinates of
                  Null \<Rightarrow> Inl TypeError
                | Undef \<Rightarrow> Inl TypeError
                | Val coords \<Rightarrow>
                    forEach
                      (\<lambda>st coord.
                         case createPt_js S ''wpt'' coord props of
                           Inl e \<Rightarrow> Inl e
                         | Inr pt \<Rightarrow> Inr (st\<lparr>wpts := wpts st @ [pt]\<rparr>))
                      st coords)
           | Val (LineString_js coordinates) \<Rightarrow>
               (let lineTrk = createTrk S props in
                case createTrkSeg_js S coordinates of
                  Inl e \<Rightarrow> Inl e
                | Inr trkseg \<Rightarrow>
                    Inr (st\<lparr>trks := trks st @ [appendChild lineTrk (ElementNode trkseg)]\<rparr>))
           | Val (MultiLineString_js coordinates) \<Rightarrow>
               (let trk = createTrk S props in
                case coordinates of
                  Null \<Rightarrow> Inl TypeError
                | Undef \<Rightarrow> Inl TypeError
                | Val lines \<Rightarrow>
                    (case forEach
                            (\<lambda>trk pos.
                               case createTrkSeg_js S pos of
                                 Inl e \<Rightarrow> Inl e
                               | Inr trkseg \<Rightarrow> Inr (appendChild trk (ElementNode trkseg)))
                            trk lines of
                       Inl e \<Rightarrow> Inl e
                     | Inr trk \<Rightarrow> Inr (st\<lparr>trks := trks st @ [trk]\<rparr>)))
           | Val (OtherGeometry_js t) \<Rightarrow> Inr st))"

text \<open>
  Lines 256 and 260 test \<^verbatim>\<open>x && typeof x === 'object'\<close>, which \<^verbatim>\<open>null\<close> fails: a
  \<^verbatim>\<open>null\<close> author or author link is skipped like an absent one.
\<close>

definition createAuthor_js :: "('n \<Rightarrow> string) \<Rightarrow> Person_js \<Rightarrow> element" where
  "createAuthor_js S person =
     (let author = createElementWithNS ''author'';
          author = createTagInParentElement S author ''name''
                     (opt_content (person_name_js person));
          author = createTagInParentElement S author ''email''
                     (opt_content (person_email_js person))
      in case person_link_js person of
           Null \<Rightarrow> author
         | Undef \<Rightarrow> author
         | Val l \<Rightarrow> createLinkInParentElement S author l)"

text \<open>
  Lines 265 and 274 test \<^verbatim>\<open>typeof x === 'object'\<close> only, which \<^verbatim>\<open>null\<close> passes: line 267
  then reads \<^verbatim>\<open>meta.copyright.author\<close>, and line 114, called from line 275, destructures
  the link.
\<close>

definition createMetadata_js :: "('n \<Rightarrow> string) \<Rightarrow> MetaData_js \<Rightarrow> js_error + element" where
  "createMetadata_js S meta =
     (let metadata = createElementWithNS ''metadata'';
          metadata = createTagInParentElement S metadata ''name''
                       (opt_content (meta_name_js meta));
          metadata = createTagInParentElement S metadata ''desc''
                       (opt_content (meta_desc_js meta));
          metadata = (case meta_author_js meta of
                        Null \<Rightarrow> metadata
                      | Undef \<Rightarrow> metadata
                      | Val person \<Rightarrow>
                          appendChild metadata (ElementNode (createAuthor_js S person)))
      in case meta_copyright_js meta of
           Null \<Rightarrow> Inl TypeError
         | c \<Rightarrow>
             (let metadata = (case c of
                                Val c' \<Rightarrow>
                                  appendChild metadata (ElementNode (createCopyright S c'))
                              | _ \<Rightarrow> metadata)
              in case meta_link_js meta of
                   Null \<Rightarrow> Inl TypeError
                 | l \<Rightarrow>
                     (let metadata = (case l of
                                        Val l' \<Rightarrow> createLinkInParentElement S metadata l'
                                      | _ \<Rightarrow> metadata);
                          metadata = createTagInParentElement S metadata ''time''
                                       (opt_content (meta_time_js meta))
                      in Inr (createTagInParentElement S metadata ''keywords''
                                (opt_content (meta_keywords_js meta))))))"

text \<open>\<^verbatim>\<open>options?.creator || defaultPackageName\<close> with \<^verbatim>\<open>null\<close> or \<^verbatim>\<open>undefined\<close> options.\<close>

definition creatorOf_js :: "Options_js nullable \<Rightarrow> string" where
  "creatorOf_js options =
     (case options of
        Null \<Rightarrow> defaultPackageName
      | Undef \<Rightarrow> defaultPackageName
      | Val opts \<Rightarrow>
          (case creator_js opts of
             None \<Rightarrow> defaultPackageName
           | Some c \<Rightarrow> if c = [] then defaultPackageName else c))"

text \<open>
  Line 251 tests \<^verbatim>\<open>options && typeof options.metadata === 'object'\<close>: \<^verbatim>\<open>null\<close> options fail
  the test, \<^verbatim>\<open>null\<close> metadata pass it, and line 254 then reads \<^verbatim>\<open>meta.name\<close>.
\<close>

definition addMetadata_js ::
  "('n \<Rightarrow> string) \<Rightarrow> element \<Rightarrow> Options_js nullable \<Rightarrow> js_error + element" where
  "addMetadata_js S gpx options =
     (case options of
        Null \<Rightarrow> Inr gpx
      | Undef \<Rightarrow> Inr gpx
      | Val opts \<Rightarrow>
          (case metadata_js opts of
             Null \<Rightarrow> Inl TypeError
           | Undef \<Rightarrow> Inr gpx
           | Val meta \<Rightarrow>
               (case createMetadata_js S meta of
                  Inl e \<Rightarrow> Inl e
                | Inr el \<Rightarrow> Inr (appendChild gpx (ElementNode el)))))"

text \<open>Line 283 destructures \<^verbatim>\<open>geoJson\<close> and line 292 calls \<^verbatim>\<open>features.forEach\<close>.\<close>

definition processGeoJson_js ::
  "('n \<Rightarrow> string) \<Rightarrow> 'n GeoJson_js nullable \<Rightarrow> collected \<Rightarrow> js_error + collected" where
  "processGeoJson_js S geoJson st =
     (case geoJson of
        Null \<Rightarrow> Inl TypeError
      | Undef \<Rightarrow> Inl TypeError
      | Val (Feature_js f) \<Rightarrow> interpretFeature_js S st (Val f)
      | Val (FeatureCollection_js features) \<Rightarrow>
          (case features of
             Null \<Rightarrow> Inl TypeError
           | Undef \<Rightarrow> Inl TypeError
           | Val fs \<Rightarrow> forEach (interpretFeature_js S) st fs)
      | Val (OtherType_js t) \<Rightarrow> Inr st)"

definition gpxElement_js ::
  "('n \<Rightarrow> string) \<Rightarrow> 'n GeoJson_js nullable \<Rightarrow> Options_js nullable \<Rightarrow> js_error + element" where
  "gpxElement_js S geoJson options =
     (let gpx = createElementWithNS ''gpx'';
          gpx = setAttribute gpx ''version'' ''1.1'';
          gpx = setAttribute gpx ''creator'' (creatorOf_js options);
          st = \<lparr>wpts = [], trks = []\<rparr>
      in case addMetadata_js S gpx options of
           Inl e \<Rightarrow> Inl e
         | Inr gpx \<Rightarrow>
             (case processGeoJson_js S geoJson st of
                Inl e \<Rightarrow> Inl e
              | Inr st \<Rightarrow>
                  (let gpx = foldl (\<lambda>gpx wpt. appendChild gpx (ElementNode wpt)) gpx (wpts st)
                   in Inr (foldl (\<lambda>gpx trk. appendChild gpx (ElementNode trk)) gpx (trks st)))))"

definition GeoJsonToGpx_js ::
  "('n \<Rightarrow> string) \<Rightarrow> 'n GeoJson_js nullable \<Rightarrow> Options_js nullable \<Rightarrow> js_error + XMLDocument" where
  "GeoJsonToGpx_js S geoJson options =
     (let doc = createDocument;
          instruct = ProcessingInstruction ''xml'' ''version=\"1.0\" encoding=\"UTF-8\"'';
          doc = docAppendChild doc instruct
      in case gpxElement_js S geoJson options of
           Inl e \<Rightarrow> Inl e
         | Inr gpx \<Rightarrow> Inr (docAppendChild doc (DocElement gpx)))"

text \<open>
  A value of a declared type as an input of the functions of this section: nothing in it is
  \<open>Null\<close>, and \<open>Undef\<close> stands only for an optional field that is absent.
\<close>

definition opt_nullable :: "'a option \<Rightarrow> 'a nullable" where
  "opt_nullable x = (case x of None \<Rightarrow> Undef | Some v \<Rightarrow> Val v)"

definition typed_positions :: "'n Position list \<Rightarrow> 'n Position nullable list nullable" where
  "typed_positions ps = Val (map Val ps)"

fun typed_Geometry :: "'n Geometry \<Rightarrow> 'n Geometry_js" where
  "typed_Geometry (Point p) = Point_js (Val p)"
| "typed_Geometry (MultiPoint ps) = MultiPoint_js (typed_positions ps)"
| "typed_Geometry (LineString ps) = LineString_js (typed_positions ps)"
| "typed_Geometry (MultiLineString ls) = MultiLineString_js (Val (map typed_positions ls))"
| "typed_Geometry (Polygon rs) = Polygon_js (Val rs)"
| "typed_Geometry (OtherGeometry t) = OtherGeometry_js t"

definition typed_feature :: "'n feature \<Rightarrow> 'n feature_js" where
  "typed_feature f =
     \<lparr>geometry_js = Val (typed_Geometry (geometry f)), properties_js = properties f\<rparr>"

fun typed_GeoJson :: "'n GeoJson \<Rightarrow> 'n GeoJson_js" where
  "typed_GeoJson (Feature f) = Feature_js (typed_feature f)"
| "typed_GeoJson (FeatureCollection fs) =
     FeatureCollection_js (Val (map (\<lambda>f. Val (typed_feature f)) fs))"
| "typed_GeoJson (OtherType t) = OtherType_js t"

definition typed_Person :: "Person \<Rightarrow> Person_js" where
  "typed_Person p =
     \<lparr>person_name_js = person_name p, person_email_js = person_email p,
      person_link_js = opt_nullable (person_link p)\<rparr>"

definition typed_MetaData :: "MetaData \<Rightarrow> MetaData_js" where
  "typed_MetaData m =
     \<lparr>meta_name_js = meta_name m, meta_desc_js = meta_desc m,
      meta_author_js = opt_nullable (map_option typed_Person (meta_author m)),
      meta_copyright_js = opt_nullable (meta_copyright m),
      meta_link_js = opt_nullable (meta_link m),
      meta_time_js = meta_time m, meta_keywords_js = meta_keywords m,
      meta_bounds_js = meta_bounds m\<rparr>"

definition typed_Options :: "Options option \<Rightarrow> Options_js nullable" where
  "typed_Options options =
     opt_nullable
       (map_option
          (\<lambda>opts. \<lparr>creator_js = creator opts, version_js = version opts,
                    metadata_js = opt_nullable (map_option typed_MetaData (metadata opts))\<rparr>)
          options)"

section \<open>Describing the output\<close>

text \<open>
  The definitions of this section are not part of the program. They read a finished tree
  (\<open>documentElement\<close>, \<open>childElements\<close>, \<open>tagsOf\<close>) or say in closed form what a part of the
  output is expected to be; the lemmas below compare the program with them.
\<close>

text \<open>The root element of a document, and the child elements of an element with a given tag.\<close>

definition documentElement :: "XMLDocument \<Rightarrow> element option" where
  "documentElement doc =
     (case [e. DocElement e \<leftarrow> docChildren doc] of [] \<Rightarrow> None | e # es \<Rightarrow> Some e)"

definition elementsTagged :: "string \<Rightarrow> node list \<Rightarrow> element list" where
  "elementsTagged tag ns = [e. ElementNode e \<leftarrow> ns, tagName e = tag]"

definition childElements :: "string \<Rightarrow> element \<Rightarrow> element list" where
  "childElements tag el = elementsTagged tag (childNodes el)"

text \<open>The tag names of an element and of all its descendants.\<close>

fun tagsOf :: "element \<Rightarrow> string list" and nodeTags :: "node \<Rightarrow> string list" where
  "tagsOf (Element ns t as cs) = t # concat (map nodeTags cs)"
| "nodeTags (ElementNode e) = tagsOf e"
| "nodeTags (TextNode s) = []"

text \<open>A leaf: an element with no attribute whose one child is a text node.\<close>

definition leafElement :: "string \<Rightarrow> string \<Rightarrow> element" where
  "leafElement tag s = Element gpx_ns tag [] [TextNode s]"

definition leaf :: "string \<Rightarrow> string \<Rightarrow> node" where
  "leaf tag s = ElementNode (leafElement tag s)"

text \<open>The leaf of a content that is defined, of an optional string that is defined, and of an
  optional string that is defined and not empty.\<close>

definition content_leaf :: "('n \<Rightarrow> string) \<Rightarrow> string \<Rightarrow> 'n content \<Rightarrow> node list" where
  "content_leaf S tag c = (if c = Undefined then [] else [leaf tag (String_js S c)])"

definition opt_leaf :: "string \<Rightarrow> string option \<Rightarrow> node list" where
  "opt_leaf tag x = (case x of None \<Rightarrow> [] | Some s \<Rightarrow> [leaf tag s])"

definition nonempty_leaf :: "string \<Rightarrow> string option \<Rightarrow> node list" where
  "nonempty_leaf tag x = (case x of None \<Rightarrow> [] | Some s \<Rightarrow> if s = [] then [] else [leaf tag s])"

text \<open>The leaves copied from a property bag: for each key of the whitelist, in its order, one
  leaf when the value under the key is a non-empty string.\<close>

definition copied :: "(string \<Rightarrow> 'n jsval) \<Rightarrow> string \<Rightarrow> node list" where
  "copied obj key = (case obj key of JStr s \<Rightarrow> if s \<noteq> [] then [leaf key s] else [] | _ \<Rightarrow> [])"

definition property_leaves :: "string list \<Rightarrow> 'n jsval \<Rightarrow> node list" where
  "property_leaves supports props =
     (case props of JObj obj \<Rightarrow> concat (map (copied obj) supports) | _ \<Rightarrow> [])"

text \<open>The \<^verbatim>\<open>ele\<close> and \<^verbatim>\<open>time\<close> leaves of a position.\<close>

definition ele_time_leaves :: "('n \<Rightarrow> string) \<Rightarrow> 'n Position \<Rightarrow> node list" where
  "ele_time_leaves S position =
     content_leaf S ''ele'' (slot position 2) @ content_leaf S ''time'' (slot position 3)"

text \<open>The expected \<^verbatim>\<open>link\<close> child of a parent.\<close>

definition link_element :: "string \<Rightarrow> Link \<Rightarrow> element" where
  "link_element h l =
     Element gpx_ns ''link'' [(''href'', h)]
       (nonempty_leaf ''text'' (link_text l) @ nonempty_leaf ''type'' (link_type l))"

definition link_part :: "Link option \<Rightarrow> node list" where
  "link_part lo =
     (case lo of
        None \<Rightarrow> []
      | Some l \<Rightarrow>
          (case link_href l of
             None \<Rightarrow> []
           | Some h \<Rightarrow> if h = [] then [] else [ElementNode (link_element h l)]))"

text \<open>The \<^verbatim>\<open>metadata\<close> element that the options configure, if they do.\<close>

definition metadata_part :: "('n \<Rightarrow> string) \<Rightarrow> Options option \<Rightarrow> element list" where
  "metadata_part S options =
     (case options of
        None \<Rightarrow> []
      | Some opts \<Rightarrow> (case metadata opts of None \<Rightarrow> [] | Some meta \<Rightarrow> [createMetadata S meta]))"

text \<open>What \<^verbatim>\<open>interpretFeature\<close> pushes for one feature, and the features of an input in the
  order in which \<^verbatim>\<open>GeoJsonToGpx\<close> goes through them.\<close>

definition feature_wpts :: "('n \<Rightarrow> string) \<Rightarrow> 'n feature \<Rightarrow> element list" where
  "feature_wpts S f = wpts (interpretFeature S \<lparr>wpts = [], trks = []\<rparr> f)"

definition feature_trks :: "('n \<Rightarrow> string) \<Rightarrow> 'n feature \<Rightarrow> element list" where
  "feature_trks S f = trks (interpretFeature S \<lparr>wpts = [], trks = []\<rparr> f)"

definition traversal :: "'n GeoJson \<Rightarrow> 'n feature list" where
  "traversal geoJson =
     (case geoJson of Feature f \<Rightarrow> [f] | FeatureCollection fs \<Rightarrow> fs | OtherType t \<Rightarrow> [])"

section \<open>The builders in closed form\<close>

lemma createTag_Element:
  "createTagInParentElement S (Element ns t as cs) tag c = Element ns t as (cs @ content_leaf S tag c)"
  by (simp add: createTagInParentElement_def content_leaf_def leaf_def leafElement_def createElementWithNS_def)

lemma addSupportedProperty_Element:
  "key \<in> set supports \<Longrightarrow>
   addSupportedProperty S supports obj (Element ns t as cs) key = Element ns t as (cs @ copied obj key)"
  by (simp add: addSupportedProperty_def copied_def createTag_Element content_leaf_def
      split: jsval.splits)

lemma foldl_addSupportedProperty:
  "set ks \<subseteq> set supports \<Longrightarrow>
   foldl (addSupportedProperty S supports obj) (Element ns t as cs) ks
     = Element ns t as (cs @ concat (map (copied obj) ks))"
  by (induction ks arbitrary: cs) (simp_all add: addSupportedProperty_Element)

lemma addSupported_Element:
  "addSupportedPropertiesFromObject S (Element ns t as cs) supports props
     = Element ns t as (cs @ property_leaves supports props)"
  by (simp add: addSupportedPropertiesFromObject_def property_leaves_def
      foldl_addSupportedProperty split: jsval.splits)

lemma property_leaves_Link_object:
  "property_leaves [''text'', ''type''] (Link_object l)
     = nonempty_leaf ''text'' (link_text l) @ nonempty_leaf ''type'' (link_type l)"
  by (simp add: property_leaves_def Link_object_def copied_def opt_jsval_def nonempty_leaf_def
      split: option.splits)

lemma createLink_Element:
  "createLinkInParentElement S (Element ns t as cs) l = Element ns t as (cs @ link_part (Some l))"
  by (simp add: createLinkInParentElement_def link_part_def link_element_def createElementWithNS_def
      addSupported_Element property_leaves_Link_object split: option.splits)

lemma createPt_Element:
  "createPt S ty position props =
     Element gpx_ns ty
       [(''lat'', String_js S (slot position 1)), (''lon'', String_js S (slot position 0))]
       (ele_time_leaves S position @ property_leaves [''name'', ''desc'', ''src'', ''type''] props)"
  by (simp add: createPt_def createElementWithNS_def createTag_Element addSupported_Element
      ele_time_leaves_def)

lemma createTrk_Element:
  "createTrk S props =
     Element gpx_ns ''trk'' [] (property_leaves [''name'', ''desc'', ''src'', ''type''] props)"
  by (simp add: createTrk_def createElementWithNS_def addSupported_Element)

lemma foldl_appendChild:
  "foldl (\<lambda>el x. appendChild el (ElementNode (f x))) (Element ns t as cs) xs
     = Element ns t as (cs @ map (\<lambda>x. ElementNode (f x)) xs)"
  by (induction xs arbitrary: cs) simp_all

lemma createTrkSeg_Element:
  "createTrkSeg S coordinates =
     Element gpx_ns ''trkseg'' []
       (map (\<lambda>point. ElementNode (createPt S ''trkpt'' point JUndefined)) coordinates)"
  by (simp add: createTrkSeg_def createElementWithNS_def foldl_appendChild)

lemma foldl_push_wpts:
  "foldl (\<lambda>st x. st\<lparr>wpts := wpts st @ [f x]\<rparr>) st xs = st\<lparr>wpts := wpts st @ map f xs\<rparr>"
  by (induction xs arbitrary: st) simp_all

lemma interpretFeature_wpts:
  "wpts (interpretFeature S st f) = wpts st @ feature_wpts S f"
  by (simp add: interpretFeature_def feature_wpts_def foldl_push_wpts Let_def
      split: Geometry.splits)

lemma interpretFeature_trks:
  "trks (interpretFeature S st f) = trks st @ feature_trks S f"
  by (simp add: interpretFeature_def feature_trks_def foldl_push_wpts Let_def
      split: Geometry.splits)

lemma foldl_interpretFeature_wpts:
  "wpts (foldl (interpretFeature S) st fs) = wpts st @ concat (map (feature_wpts S) fs)"
  by (induction fs arbitrary: st) (simp_all add: interpretFeature_wpts)

lemma foldl_interpretFeature_trks:
  "trks (foldl (interpretFeature S) st fs) = trks st @ concat (map (feature_trks S) fs)"
  by (induction fs arbitrary: st) (simp_all add: interpretFeature_trks)

lemma processGeoJson_wpts:
  "wpts (processGeoJson S g st) = wpts st @ concat (map (feature_wpts S) (traversal g))"
  by (simp add: processGeoJson_def traversal_def interpretFeature_wpts
      foldl_interpretFeature_wpts split: GeoJson.splits)

lemma processGeoJson_trks:
  "trks (processGeoJson S g st) = trks st @ concat (map (feature_trks S) (traversal g))"
  by (simp add: processGeoJson_def traversal_def interpretFeature_trks
      foldl_interpretFeature_trks split: GeoJson.splits)

lemma gpxElement_Element:
  "gpxElement S g options =
     Element gpx_ns ''gpx'' [(''version'', ''1.1''), (''creator'', creatorOf options)]
       (map ElementNode (metadata_part S options) @
        map ElementNode (concat (map (feature_wpts S) (traversal g))) @
        map ElementNode (concat (map (feature_trks S) (traversal g))))"
  by (simp add: gpxElement_def createElementWithNS_def metadata_part_def foldl_appendChild[where f="\<lambda>x. x"]
      processGeoJson_wpts processGeoJson_trks split: option.splits)

lemma documentElement_GeoJsonToGpx:
  "documentElement (GeoJsonToGpx S g options) = Some (gpxElement S g options)"
  by (simp add: documentElement_def GeoJsonToGpx_def createDocument_def)

lemma content_leaf_opt_content: "content_leaf S tag (opt_content x) = opt_leaf tag x"
  by (simp add: content_leaf_def opt_content_def opt_leaf_def split: option.splits)

lemma createAuthor_Element:
  "createAuthor S p =
     Element gpx_ns ''author'' []
       (opt_leaf ''name'' (person_name p) @ opt_leaf ''email'' (person_email p) @
        link_part (person_link p))"
  by (simp add: createAuthor_def createElementWithNS_def createTag_Element
      content_leaf_opt_content createLink_Element link_part_def split: option.splits)

lemma createCopyright_Element:
  "createCopyright S c =
     Element gpx_ns ''copyright''
       (case copyright_author c of None \<Rightarrow> [] | Some a \<Rightarrow> if a = [] then [] else [(''author'', a)])
       (opt_leaf ''year'' (copyright_year c) @ opt_leaf ''license'' (copyright_license c))"
  by (simp add: createCopyright_def createElementWithNS_def createTag_Element
      content_leaf_opt_content split: option.splits)

lemma createMetadata_Element:
  "createMetadata S meta =
     Element gpx_ns ''metadata'' []
       (opt_leaf ''name'' (meta_name meta) @ opt_leaf ''desc'' (meta_desc meta) @
        (case meta_author meta of None \<Rightarrow> [] | Some p \<Rightarrow> [ElementNode (createAuthor S p)]) @
        (case meta_copyright meta of None \<Rightarrow> [] | Some c \<Rightarrow> [ElementNode (createCopyright S c)]) @
        link_part (meta_link meta) @
        opt_leaf ''time'' (meta_time meta) @ opt_leaf ''keywords'' (meta_keywords meta))"
proof -
  have l: "link_part None = []"
    by (simp add: link_part_def)
  show ?thesis
    by (cases "meta_author meta"; cases "meta_copyright meta"; cases "meta_link meta")
      (simp_all add: createMetadata_def createElementWithNS_def createTag_Element
        content_leaf_opt_content createLink_Element l)
qed

lemma nodeTags_leaf: "nodeTags (leaf tag s) = [tag]"
  by (simp add: leaf_def leafElement_def)

lemma tags_content_leaf: "t \<noteq> tag \<Longrightarrow> t \<notin> set (concat (map nodeTags (content_leaf S tag c)))"
  by (simp add: content_leaf_def nodeTags_leaf)

lemma tags_copied: "t \<noteq> key \<Longrightarrow> t \<notin> set (concat (map nodeTags (copied obj key)))"
  by (cases "obj key") (simp_all add: copied_def nodeTags_leaf)

lemma tags_property_leaves:
  assumes "t \<notin> set supports"
  shows "t \<notin> set (concat (map nodeTags (property_leaves supports props)))"
proof (cases props)
  case (JObj obj)
  have "t \<notin> set ks \<Longrightarrow> t \<notin> set (concat (map nodeTags (concat (map (copied obj) ks))))" for ks
  proof (induction ks)
    case Nil
    show ?case by simp
  next
    case (Cons k ks)
    then show ?case using tags_copied[of t k obj] by auto
  qed
  from this[OF assms] JObj show ?thesis by (simp add: property_leaves_def)
qed (simp_all add: property_leaves_def)

lemma no_metadata_createPt:
  "ty \<noteq> ''metadata'' \<Longrightarrow> ''metadata'' \<notin> set (tagsOf (createPt S ty position props))"
proof -
  assume ty: "ty \<noteq> ''metadata''"
  have p: "''metadata'' \<notin> set (concat (map nodeTags
             (property_leaves [''name'', ''desc'', ''src'', ''type''] props)))"
    by (rule tags_property_leaves) simp
  have e: "''metadata'' \<notin> set (concat (map nodeTags (content_leaf S ''ele'' (slot position 2))))"
    by (rule tags_content_leaf) simp
  have t: "''metadata'' \<notin> set (concat (map nodeTags (content_leaf S ''time'' (slot position 3))))"
    by (rule tags_content_leaf) simp
  from ty p e t show ?thesis
    by (simp add: createPt_Element ele_time_leaves_def)
qed

lemma no_metadata_createTrkSeg:
  "''metadata'' \<notin> set (tagsOf (createTrkSeg S coordinates))"
proof -
  have "''metadata'' \<notin> set (tagsOf (createPt S ''trkpt'' p JUndefined))" for p
    by (rule no_metadata_createPt) simp
  then show ?thesis
    by (simp add: createTrkSeg_Element)
qed

section \<open>Reading the output\<close>

lemma elementsTagged_append:
  "elementsTagged tag (xs @ ys) = elementsTagged tag xs @ elementsTagged tag ys"
  by (simp add: elementsTagged_def)

lemma elementsTagged_ElementNode:
  "elementsTagged tag (map ElementNode es) = filter (\<lambda>e. tagName e = tag) es"
  by (induction es) (simp_all add: elementsTagged_def)

lemma filter_tagged_same:
  "list_all (\<lambda>e. tagName e = tag) es \<Longrightarrow> filter (\<lambda>e. tagName e = tag) es = es"
  by (induction es) simp_all

lemma filter_tagged_other:
  "list_all (\<lambda>e. tagName e = t) es \<Longrightarrow> t \<noteq> tag \<Longrightarrow> filter (\<lambda>e. tagName e = tag) es = []"
  by (induction es) auto

lemma feature_wpts_closed:
  "feature_wpts S f =
     (case geometry f of
        Point position \<Rightarrow> [createPt S ''wpt'' position (properties f)]
      | MultiPoint coordinates \<Rightarrow> map (\<lambda>coord. createPt S ''wpt'' coord (properties f)) coordinates
      | _ \<Rightarrow> [])"
  by (simp add: feature_wpts_def interpretFeature_def foldl_push_wpts Let_def
      split: Geometry.splits)

lemma feature_trks_closed:
  "feature_trks S f =
     (case geometry f of
        LineString coordinates \<Rightarrow>
          [Element gpx_ns ''trk'' []
             (property_leaves [''name'', ''desc'', ''src'', ''type''] (properties f) @
              [ElementNode (createTrkSeg S coordinates)])]
      | MultiLineString coordinates \<Rightarrow>
          [Element gpx_ns ''trk'' []
             (property_leaves [''name'', ''desc'', ''src'', ''type''] (properties f) @
              map (\<lambda>pos. ElementNode (createTrkSeg S pos)) coordinates)]
      | _ \<Rightarrow> [])"
  by (simp add: feature_trks_def interpretFeature_def foldl_push_wpts Let_def createTrk_Element
      foldl_appendChild split: Geometry.splits)

lemma feature_wpts_tagged: "list_all (\<lambda>e. tagName e = ''wpt'') (feature_wpts S f)"
  by (simp add: feature_wpts_closed createPt_Element list_all_iff split: Geometry.splits)

lemma feature_trks_tagged: "list_all (\<lambda>e. tagName e = ''trk'') (feature_trks S f)"
  by (simp add: feature_trks_closed split: Geometry.splits)

lemma all_wpts_tagged: "list_all (\<lambda>e. tagName e = ''wpt'') (concat (map (feature_wpts S) fs))"
  by (induction fs) (simp_all add: feature_wpts_tagged)

lemma all_trks_tagged: "list_all (\<lambda>e. tagName e = ''trk'') (concat (map (feature_trks S) fs))"
  by (induction fs) (simp_all add: feature_trks_tagged)

lemma metadata_part_tagged: "list_all (\<lambda>e. tagName e = ''metadata'') (metadata_part S options)"
  by (simp add: metadata_part_def createMetadata_Element split: option.splits)

lemma elementsTagged_content_leaf:
  "elementsTagged t (content_leaf S tag c) =
     (if t = tag \<and> c \<noteq> Undefined then [leafElement tag (String_js S c)] else [])"
  by (simp add: elementsTagged_def content_leaf_def leaf_def leafElement_def)

lemma elementsTagged_copied: "t \<noteq> key \<Longrightarrow> elementsTagged t (copied obj key) = []"
  by (cases "obj key") (simp_all add: copied_def elementsTagged_def leaf_def leafElement_def)

lemma elementsTagged_property_leaves:
  assumes "t \<notin> set supports"
  shows "elementsTagged t (property_leaves supports props) = []"
proof (cases props)
  case (JObj obj)
  have "t \<notin> set ks \<Longrightarrow> elementsTagged t (concat (map (copied obj) ks)) = []" for ks
  proof (induction ks)
    case Nil
    show ?case by (simp add: elementsTagged_def)
  next
    case (Cons k ks)
    then show ?case using elementsTagged_copied[of t k obj]
      by (simp add: elementsTagged_append)
  qed
  from this[OF assms] JObj show ?thesis by (simp add: property_leaves_def)
qed (simp_all add: property_leaves_def elementsTagged_def)

lemma childElements_gpx_wpt:
  "childElements ''wpt'' (gpxElement S g options) = concat (map (feature_wpts S) (traversal g))"
  using filter_tagged_other[OF metadata_part_tagged[of S options], of "''wpt''"]
    filter_tagged_same[OF all_wpts_tagged[of S "traversal g"]]
    filter_tagged_other[OF all_trks_tagged[of S "traversal g"], of "''wpt''"]
  by (simp add: childElements_def gpxElement_Element elementsTagged_append
      elementsTagged_ElementNode)

lemma childElements_gpx_trk:
  "childElements ''trk'' (gpxElement S g options) = concat (map (feature_trks S) (traversal g))"
  using filter_tagged_other[OF metadata_part_tagged[of S options], of "''trk''"]
    filter_tagged_other[OF all_wpts_tagged[of S "traversal g"], of "''trk''"]
    filter_tagged_same[OF all_trks_tagged[of S "traversal g"]]
  by (simp add: childElements_def gpxElement_Element elementsTagged_append
      elementsTagged_ElementNode)

lemma childElements_gpx_metadata:
  "childElements ''metadata'' (gpxElement S g options) = metadata_part S options"
  using filter_tagged_same[OF metadata_part_tagged[of S options]]
    filter_tagged_other[OF all_wpts_tagged[of S "traversal g"], of "''metadata''"]
    filter_tagged_other[OF all_trks_tagged[of S "traversal g"], of "''metadata''"]
  by (simp add: childElements_def gpxElement_Element elementsTagged_append
      elementsTagged_ElementNode)

lemma childElements_createPt_ele:
  "childElements ''ele'' (createPt S ty position props) =
     (if 2 < length position then [leafElement ''ele'' (S (position ! 2))] else [])"
  using elementsTagged_property_leaves[of "''ele''" "[''name'', ''desc'', ''src'', ''type'']" props]
  by (simp add: childElements_def createPt_Element ele_time_leaves_def elementsTagged_append
      elementsTagged_content_leaf slot_def)

lemma childElements_createPt_time:
  "childElements ''time'' (createPt S ty position props) =
     (if 3 < length position then [leafElement ''time'' (S (position ! 3))] else [])"
  using elementsTagged_property_leaves[of "''time''" "[''name'', ''desc'', ''src'', ''type'']" props]
  by (simp add: childElements_def createPt_Element ele_time_leaves_def elementsTagged_append
      elementsTagged_content_leaf slot_def)

lemma childElements_trk_trkseg:
  "childElements ''trkseg''
     (Element gpx_ns ''trk'' []
        (property_leaves [''name'', ''desc'', ''src'', ''type''] props @
         map (\<lambda>pos. ElementNode (createTrkSeg S pos)) lines))
   = map (createTrkSeg S) lines"
proof -
  have "filter (\<lambda>e. tagName e = ''trkseg'') (map (createTrkSeg S) lines) = map (createTrkSeg S) lines"
    by (rule filter_tagged_same) (simp add: list_all_iff createTrkSeg_Element)
  then have "elementsTagged ''trkseg'' (map ElementNode (map (createTrkSeg S) lines))
               = map (createTrkSeg S) lines"
    by (simp only: elementsTagged_ElementNode)
  moreover have "elementsTagged ''trkseg''
                   (property_leaves [''name'', ''desc'', ''src'', ''type''] props) = []"
    by (rule elementsTagged_property_leaves) simp
  ultimately show ?thesis
    by (simp add: childElements_def elementsTagged_append comp_def)
qed

lemma childElements_trkseg_trkpt:
  "childElements ''trkpt'' (createTrkSeg S coordinates)
     = map (\<lambda>point. createPt S ''trkpt'' point JUndefined) coordinates"
proof -
  have "filter (\<lambda>e. tagName e = ''trkpt'') (map (\<lambda>point. createPt S ''trkpt'' point JUndefined) coordinates)
          = map (\<lambda>point. createPt S ''trkpt'' point JUndefined) coordinates"
    by (rule filter_tagged_same) (simp add: list_all_iff createPt_Element)
  then have "elementsTagged ''trkpt''
               (map ElementNode (map (\<lambda>point. createPt S ''trkpt'' point JUndefined) coordinates))
             = map (\<lambda>point. createPt S ''trkpt'' point JUndefined) coordinates"
    by (simp only: elementsTagged_ElementNode)
  then show ?thesis
    by (simp add: childElements_def createTrkSeg_Element comp_def)
qed

lemma no_metadata_feature_wpts:
  "e \<in> set (feature_wpts S f) \<Longrightarrow> ''metadata'' \<notin> set (tagsOf e)"
  using no_metadata_createPt[of "''wpt''" S _ "properties f"]
  by (auto simp add: feature_wpts_closed split: Geometry.splits)

lemma no_metadata_trk:
  assumes "\<And>n. n \<in> set segs \<Longrightarrow> ''metadata'' \<notin> set (nodeTags n)"
  shows "''metadata'' \<notin> set (tagsOf (Element gpx_ns ''trk'' []
            (property_leaves [''name'', ''desc'', ''src'', ''type''] props @ segs)))"
proof -
  have "''metadata'' \<notin> set (concat (map nodeTags
             (property_leaves [''name'', ''desc'', ''src'', ''type''] props)))"
    by (rule tags_property_leaves) simp
  with assms show ?thesis by auto
qed

lemma no_metadata_feature_trks:
  "e \<in> set (feature_trks S f) \<Longrightarrow> ''metadata'' \<notin> set (tagsOf e)"
proof (cases "geometry f")
  case (LineString cs)
  assume "e \<in> set (feature_trks S f)"
  with LineString have e: "e = Element gpx_ns ''trk'' []
      (property_leaves [''name'', ''desc'', ''src'', ''type''] (properties f) @
       [ElementNode (createTrkSeg S cs)])"
    by (simp add: feature_trks_closed)
  show ?thesis unfolding e
    by (rule no_metadata_trk) (simp add: no_metadata_createTrkSeg)
next
  case (MultiLineString css)
  assume "e \<in> set (feature_trks S f)"
  with MultiLineString have e: "e = Element gpx_ns ''trk'' []
      (property_leaves [''name'', ''desc'', ''src'', ''type''] (properties f) @
       map (\<lambda>pos. ElementNode (createTrkSeg S pos)) css)"
    by (simp add: feature_trks_closed)
  show ?thesis unfolding e
    by (rule no_metadata_trk) (auto simp add: no_metadata_createTrkSeg)
qed (simp_all add: feature_trks_closed)

lemma no_metadata_gpx:
  assumes "metadata_part S options = []"
  shows "''metadata'' \<notin> set (tagsOf (gpxElement S g options))"
  using assms no_metadata_feature_wpts[of _ S] no_metadata_feature_trks[of _ S]
  by (auto simp add: gpxElement_Element)

lemma addSupported_parts:
  "addSupportedPropertiesFromObject S el supports props =
     Element (namespaceURI el) (tagName el) (attributes el)
       (childNodes el @ property_leaves supports props)"
  by (cases el) (simp add: addSupported_Element)

lemma property_leaves_member:
  assumes "n \<in> set (property_leaves supports props)"
  shows "\<exists>obj key s. props = JObj obj \<and> key \<in> set supports \<and> obj key = JStr s \<and> s \<noteq> [] \<and>
           n = leaf key s"
proof (cases props)
  case (JObj obj)
  with assms obtain key where key: "key \<in> set supports" and n: "n \<in> set (copied obj key)"
    by (auto simp add: property_leaves_def)
  from n obtain s where "obj key = JStr s" "s \<noteq> []" "n = leaf key s"
    by (cases "obj key") (simp_all add: copied_def split: if_splits)
  with JObj key show ?thesis by blast
qed (use assms in \<open>simp_all add: property_leaves_def\<close>)

lemma property_leaves_cong:
  "(\<forall>key \<in> set supports. obj key = obj' key) \<Longrightarrow>
   property_leaves supports (JObj obj) = property_leaves supports (JObj obj')"
proof -
  assume "\<forall>key \<in> set supports. obj key = obj' key"
  then have "map (copied obj) supports = map (copied obj') supports"
    by (simp add: copied_def)
  then have "concat (map (copied obj) supports) = concat (map (copied obj') supports)"
    by (rule arg_cong)
  then show ?thesis by (simp only: property_leaves_def jsval.case)
qed

lemma elementsTagged_dropped:
  assumes "copied obj key = []"
  shows "elementsTagged key (property_leaves supports (JObj obj)) = []"
proof -
  have "elementsTagged key (concat (map (copied obj) ks)) = []" for ks
  proof (induction ks)
    case Nil
    show ?case by (simp add: elementsTagged_def)
  next
    case (Cons k ks)
    have "elementsTagged key (copied obj k) = []"
    proof (cases "k = key")
      case True
      with assms show ?thesis by (simp add: elementsTagged_def)
    next
      case False
      then show ?thesis by (simp add: elementsTagged_copied)
    qed
    with Cons show ?case by (simp add: elementsTagged_append)
  qed
  then show ?thesis by (simp add: property_leaves_def)
qed

lemma childElements_dropped:
  assumes "copied obj key = []"
  shows "childElements key (addSupportedPropertiesFromObject S el supports (JObj obj))
           = childElements key el"
  using elementsTagged_dropped[OF assms, of supports]
  by (simp add: childElements_def addSupported_parts elementsTagged_append)

lemma not_object_leaves: "(\<forall>obj. props \<noteq> JObj obj) \<Longrightarrow> property_leaves supports props = []"
  by (cases props) (simp_all add: property_leaves_def)

lemma leaf_empty_notin: "leaf key [] \<notin> set (property_leaves supports props)"
proof
  assume "leaf key [] \<in> set (property_leaves supports props)"
  then obtain obj k s where "s \<noteq> []" "leaf key [] = leaf k s"
    using property_leaves_member by blast
  then show False by (simp add: leaf_def leafElement_def)
qed

section \<open>The conversion on values of the declared types raises nothing\<close>

lemma forEach_map:
  assumes "\<And>s x. f s (h x) = Inr (g s x)"
  shows "forEach f s (map h xs) = Inr (foldl g s xs)"
  by (induction xs arbitrary: s) (simp_all add: assms)

lemma createTrkSeg_js_typed:
  "createTrkSeg_js S (typed_positions ps) = Inr (createTrkSeg S ps)"
  by (simp add: createTrkSeg_js_def typed_positions_def createTrkSeg_def createPt_js_def
      forEach_map)

lemma interpretFeature_js_typed:
  "interpretFeature_js S st (Val (typed_feature f)) = Inr (interpretFeature S st f)"
proof (cases "geometry f")
  case (MultiPoint ps)
  then show ?thesis
    by (simp add: interpretFeature_js_def interpretFeature_def typed_feature_def
        typed_positions_def createPt_js_def forEach_map)
next
  case (MultiLineString ls)
  then show ?thesis
    by (simp add: interpretFeature_js_def interpretFeature_def typed_feature_def
        createTrkSeg_js_typed forEach_map)
qed (simp_all add: interpretFeature_js_def interpretFeature_def typed_feature_def
      createPt_js_def createTrkSeg_js_typed)

lemma processGeoJson_js_typed:
  "processGeoJson_js S (Val (typed_GeoJson g)) st = Inr (processGeoJson S g st)"
  by (cases g)
    (simp_all add: processGeoJson_js_def processGeoJson_def interpretFeature_js_typed
      forEach_map)

lemma createAuthor_js_typed: "createAuthor_js S (typed_Person p) = createAuthor S p"
  by (simp add: createAuthor_js_def createAuthor_def typed_Person_def opt_nullable_def
      split: option.splits)

lemma createMetadata_js_typed:
  "createMetadata_js S (typed_MetaData m) = Inr (createMetadata S m)"
  by (cases "meta_author m"; cases "meta_copyright m"; cases "meta_link m")
    (simp_all add: createMetadata_js_def createMetadata_def typed_MetaData_def
      opt_nullable_def createAuthor_js_typed)

lemma gpxElement_js_typed:
  "gpxElement_js S (Val (typed_GeoJson g)) (typed_Options options)
     = Inr (gpxElement S g options)"
proof -
  have c: "creatorOf_js (typed_Options options) = creatorOf options"
    by (simp add: creatorOf_js_def creatorOf_def typed_Options_def opt_nullable_def
        split: option.splits)
  have m: "addMetadata_js S gpx (typed_Options options)
             = Inr (case options of
                      None \<Rightarrow> gpx
                    | Some opts \<Rightarrow>
                        (case metadata opts of
                           None \<Rightarrow> gpx
                         | Some meta \<Rightarrow> appendChild gpx (ElementNode (createMetadata S meta))))"
    for gpx
    by (simp add: addMetadata_js_def typed_Options_def opt_nullable_def
        createMetadata_js_typed split: option.splits)
  show ?thesis
    by (simp add: gpxElement_js_def gpxElement_def c m processGeoJson_js_typed Let_def)
qed

lemma GeoJsonToGpx_js_typed:
  "GeoJsonToGpx_js S (Val (typed_GeoJson g)) (typed_Options options)
     = Inr (GeoJsonToGpx S g options)"
  by (simp add: GeoJsonToGpx_js_def GeoJsonToGpx_def gpxElement_js_typed)

lemma unread_geometry_js:
  "interpretFeature_js S st (Val \<lparr>geometry_js = Val (Polygon_js cs), properties_js = props\<rparr>)
     = Inr st"
  "interpretFeature_js S st (Val \<lparr>geometry_js = Val (OtherGeometry_js t), properties_js = props\<rparr>)
     = Inr st"
  by (simp_all add: interpretFeature_js_def)

lemma null_dereferences_raise:
  "GeoJsonToGpx_js (\<lambda>n::int. ''7'')
     (Val (Feature_js \<lparr>geometry_js = Val (Point_js Undef), properties_js = JNull\<rparr>)) Undef
   = Inl TypeError"
  "GeoJsonToGpx_js (\<lambda>n::int. ''7'') (Val (FeatureCollection_js (Val [Null]))) Undef
   = Inl TypeError"
  "GeoJsonToGpx_js (\<lambda>n::int. ''7'') (Val (OtherType_js ''Topology''))
     (Val \<lparr>creator_js = None, version_js = None, metadata_js = Null\<rparr>)
   = Inl TypeError"
  "createMetadata_js (\<lambda>n::int. ''7'')
     \<lparr>meta_name_js = None, meta_desc_js = None, meta_author_js = Null,
      meta_copyright_js = Null, meta_link_js = Undef, meta_time_js = None,
      meta_keywords_js = None, meta_bounds_js = None\<rparr>
   = Inl TypeError"
  "createMetadata_js (\<lambda>n::int. ''7'')
     \<lparr>meta_name_js = None, meta_desc_js = None, meta_author_js = Null,
      meta_copyright_js = Undef, meta_link_js = Null, meta_time_js = None,
      meta_keywords_js = None, meta_bounds_js = None\<rparr>
   = Inl TypeError"
  by (simp_all add: GeoJsonToGpx_js_def gpxElement_js_def addMetadata_js_def
      processGeoJson_js_def interpretFeature_js_def createPt_js_def createMetadata_js_def)

section \<open>The claims\<close>

text \<open>
  Claim C1. For every input and every options value, the children of the root \<^verbatim>\<open>gpx\<close> element
  of the returned document are, in this order: the \<^verbatim>\<open>metadata\<close> element (at most one, there
  when the options configure one), then every \<^verbatim>\<open>wpt\<close> element, then every \<^verbatim>\<open>trk\<close>
  element. The \<^verbatim>\<open>wpt\<close> group is the concatenation, in traversal order, of what each feature
  contributes, and so is the \<^verbatim>\<open>trk\<close> group, however the geometry types are interleaved.
\<close>

theorem root_children_order:
  "documentElement (GeoJsonToGpx S geoJson options) = Some (gpxElement S geoJson options) \<and>
   tagName (gpxElement S geoJson options) = ''gpx'' \<and>
   childNodes (gpxElement S geoJson options) =
     map ElementNode (metadata_part S options) @
     map ElementNode (concat (map (feature_wpts S) (traversal geoJson))) @
     map ElementNode (concat (map (feature_trks S) (traversal geoJson))) \<and>
   length (metadata_part S options) \<le> 1 \<and>
   list_all (\<lambda>e. tagName e = ''metadata'') (metadata_part S options) \<and>
   list_all (\<lambda>e. tagName e = ''wpt'') (concat (map (feature_wpts S) (traversal geoJson))) \<and>
   list_all (\<lambda>e. tagName e = ''trk'') (concat (map (feature_trks S) (traversal geoJson)))"
proof -
  have "length (metadata_part S options) \<le> 1"
    by (simp add: metadata_part_def split: option.splits)
  then show ?thesis
    by (simp add: documentElement_GeoJsonToGpx gpxElement_Element metadata_part_tagged
        all_wpts_tagged all_trks_tagged)
qed

text \<open>
  Claim C9. Two options values that differ only in their \<^verbatim>\<open>version\<close> field give the same
  document: the field is never read, and the \<^verbatim>\<open>version\<close> attribute of the root is the
  constant \<^verbatim>\<open>1.1\<close> whatever the caller supplies.
\<close>

theorem version_option_ignored:
  "GeoJsonToGpx S geoJson (Some (opts\<lparr>version := v\<rparr>)) = GeoJsonToGpx S geoJson (Some opts) \<and>
   documentElement (GeoJsonToGpx S geoJson (Some (opts\<lparr>version := v\<rparr>)))
     = Some (gpxElement S geoJson (Some (opts\<lparr>version := v\<rparr>))) \<and>
   map_of (attributes (gpxElement S geoJson (Some (opts\<lparr>version := v\<rparr>)))) ''version''
     = Some ''1.1''"
proof -
  have eq: "gpxElement S geoJson (Some (opts\<lparr>version := v\<rparr>)) = gpxElement S geoJson (Some opts)"
    by (simp add: gpxElement_def creatorOf_def)
  have doc: "GeoJsonToGpx S geoJson (Some (opts\<lparr>version := v\<rparr>))
               = GeoJsonToGpx S geoJson (Some opts)"
    by (simp add: GeoJsonToGpx_def eq)
  have attr: "map_of (attributes (gpxElement S geoJson (Some (opts\<lparr>version := v\<rparr>)))) ''version''
                = Some ''1.1''"
    by (simp add: gpxElement_Element)
  show ?thesis
    by (intro conjI) (rule doc, rule documentElement_GeoJsonToGpx, rule attr)
qed

text \<open>
  Claim C2. A \<^verbatim>\<open>Point\<close> feature contributes exactly one \<^verbatim>\<open>wpt\<close> and no \<^verbatim>\<open>trk\<close>: the
  \<^verbatim>\<open>lat\<close> attribute is the second and the \<^verbatim>\<open>lon\<close> attribute the first component of its
  coordinates, it has an \<^verbatim>\<open>ele\<close> child exactly when there is a third component and a
  \<^verbatim>\<open>time\<close> child exactly when there is a fourth. A \<^verbatim>\<open>MultiPoint\<close> feature with \<open>N\<close>
  coordinates contributes \<open>N\<close> \<^verbatim>\<open>wpt\<close> elements, one per coordinate in array order, each built
  from the properties of the feature, and no \<^verbatim>\<open>trk\<close>.
\<close>

theorem point_features:
  "feature_wpts S \<lparr>geometry = Point position, properties = props\<rparr>
     = [createPt S ''wpt'' position props] \<and>
   feature_trks S \<lparr>geometry = Point position, properties = props\<rparr> = [] \<and>
   childElements ''wpt''
       (gpxElement S (Feature \<lparr>geometry = Point position, properties = props\<rparr>) options)
     = [createPt S ''wpt'' position props] \<and>
   childElements ''trk''
       (gpxElement S (Feature \<lparr>geometry = Point position, properties = props\<rparr>) options) = [] \<and>
   tagName (createPt S ''wpt'' position props) = ''wpt'' \<and>
   attributes (createPt S ''wpt'' position props)
     = [(''lat'', String_js S (slot position 1)), (''lon'', String_js S (slot position 0))] \<and>
   attributes (createPt S ''wpt'' (lon # lat # rest) props)
     = [(''lat'', S lat), (''lon'', S lon)] \<and>
   childElements ''ele'' (createPt S ''wpt'' position props)
     = (if 2 < length position then [leafElement ''ele'' (S (position ! 2))] else []) \<and>
   childElements ''time'' (createPt S ''wpt'' position props)
     = (if 3 < length position then [leafElement ''time'' (S (position ! 3))] else []) \<and>
   feature_wpts S \<lparr>geometry = MultiPoint coordinates, properties = props\<rparr>
     = map (\<lambda>coord. createPt S ''wpt'' coord props) coordinates \<and>
   length (feature_wpts S \<lparr>geometry = MultiPoint coordinates, properties = props\<rparr>)
     = length coordinates \<and>
   feature_trks S \<lparr>geometry = MultiPoint coordinates, properties = props\<rparr> = [] \<and>
   childElements ''wpt''
       (gpxElement S (Feature \<lparr>geometry = MultiPoint coordinates, properties = props\<rparr>) options)
     = map (\<lambda>coord. createPt S ''wpt'' coord props) coordinates \<and>
   childElements ''trk''
       (gpxElement S (Feature \<lparr>geometry = MultiPoint coordinates, properties = props\<rparr>) options)
     = []"
  by (simp add: childElements_gpx_wpt childElements_gpx_trk traversal_def feature_wpts_closed
      feature_trks_closed childElements_createPt_ele childElements_createPt_time)
    (simp add: createPt_Element slot_def)

text \<open>
  Claim C3. A \<^verbatim>\<open>LineString\<close> feature contributes exactly one \<^verbatim>\<open>trk\<close>, with exactly one
  \<^verbatim>\<open>trkseg\<close> child, whose children are one \<^verbatim>\<open>trkpt\<close> per coordinate in coordinate order;
  a \<^verbatim>\<open>trkpt\<close> gets no copied property, its children are the \<^verbatim>\<open>ele\<close> and \<^verbatim>\<open>time\<close> leaves
  of its position. A \<^verbatim>\<open>MultiLineString\<close> feature with \<open>M\<close> position arrays contributes exactly
  one \<^verbatim>\<open>trk\<close> with \<open>M\<close> \<^verbatim>\<open>trkseg\<close> children in input order, the number of \<^verbatim>\<open>trkpt\<close>
  children of each being the length of its position array.
\<close>

theorem line_features:
  "(\<exists>trk. feature_trks S \<lparr>geometry = LineString coordinates, properties = props\<rparr> = [trk] \<and>
      childElements ''trk''
          (gpxElement S (Feature \<lparr>geometry = LineString coordinates, properties = props\<rparr>) options)
        = [trk] \<and>
      tagName trk = ''trk'' \<and>
      childElements ''trkseg'' trk = [createTrkSeg S coordinates]) \<and>
   feature_wpts S \<lparr>geometry = LineString coordinates, properties = props\<rparr> = [] \<and>
   tagName (createTrkSeg S coordinates) = ''trkseg'' \<and>
   childNodes (createTrkSeg S coordinates)
     = map (\<lambda>point. ElementNode (createPt S ''trkpt'' point JUndefined)) coordinates \<and>
   childElements ''trkpt'' (createTrkSeg S coordinates)
     = map (\<lambda>point. createPt S ''trkpt'' point JUndefined) coordinates \<and>
   tagName (createPt S ''trkpt'' point JUndefined) = ''trkpt'' \<and>
   childNodes (createPt S ''trkpt'' point JUndefined) = ele_time_leaves S point \<and>
   (\<exists>trk. feature_trks S \<lparr>geometry = MultiLineString lines, properties = props\<rparr> = [trk] \<and>
      childElements ''trk''
          (gpxElement S (Feature \<lparr>geometry = MultiLineString lines, properties = props\<rparr>) options)
        = [trk] \<and>
      tagName trk = ''trk'' \<and>
      childElements ''trkseg'' trk = map (createTrkSeg S) lines \<and>
      map (\<lambda>seg. length (childElements ''trkpt'' seg)) (childElements ''trkseg'' trk)
        = map length lines) \<and>
   feature_wpts S \<lparr>geometry = MultiLineString lines, properties = props\<rparr> = []"
proof -
  have seg1: "childElements ''trkseg''
     (Element gpx_ns ''trk'' []
        (property_leaves [''name'', ''desc'', ''src'', ''type''] props @
         [ElementNode (createTrkSeg S coordinates)])) = [createTrkSeg S coordinates]"
    using childElements_trk_trkseg[of props S "[coordinates]"] by simp
  have pt: "childNodes (createPt S ''trkpt'' point JUndefined) = ele_time_leaves S point"
    by (simp add: createPt_Element property_leaves_def)
  show ?thesis
    by (simp add: childElements_gpx_trk traversal_def feature_trks_closed feature_wpts_closed
        seg1 childElements_trk_trkseg childElements_trkseg_trkpt pt comp_def)
      (simp add: createTrkSeg_Element createPt_Element)
qed

text \<open>
  Claim C4, as the code has it. For every input of the declared types, that is with neither
  \<^verbatim>\<open>null\<close> nor \<^verbatim>\<open>undefined\<close> in the place of the input, of the features array, of a
  feature, of a geometry, of a coordinates array, of a position, of the metadata, of its
  copyright or of its link, the conversion raises no error and returns a document: the
  processing instruction and a \<^verbatim>\<open>gpx\<close> root. A feature whose geometry is a \<^verbatim>\<open>Polygon\<close> or
  of an unrecognised type raises nothing, whatever its coordinates are, and leaves the two
  arrays as they are; the document of a collection with such a feature is the document of the
  collection without it. An input whose type is neither \<^verbatim>\<open>Feature\<close> nor
  \<^verbatim>\<open>FeatureCollection\<close> gives a root with no \<^verbatim>\<open>wpt\<close> and no \<^verbatim>\<open>trk\<close> child. The claim
  as the specification words it, for every input, fails: a feature whose geometry is
  \<^verbatim>\<open>null\<close> raises a \<^verbatim>\<open>TypeError\<close> at line 200.
\<close>

theorem unsupported_degrade:
  "GeoJsonToGpx_js S (Val (typed_GeoJson geoJson)) (typed_Options options)
     = Inr (GeoJsonToGpx S geoJson options) \<and>
   interpretFeature_js S st (Val \<lparr>geometry_js = Val (Polygon_js rings), properties_js = props\<rparr>)
     = Inr st \<and>
   interpretFeature_js S st
       (Val \<lparr>geometry_js = Val (OtherGeometry_js gty), properties_js = props\<rparr>)
     = Inr st \<and>
   (\<exists>root. GeoJsonToGpx S geoJson options =
        Document [ProcessingInstruction ''xml'' ''version=\"1.0\" encoding=\"UTF-8\"'',
                  DocElement root] \<and>
      tagName root = ''gpx'') \<and>
   ((\<exists>cs. geometry f = Polygon cs) \<or> (\<exists>t. geometry f = OtherGeometry t) \<longrightarrow>
      interpretFeature S st f = st \<and>
      feature_wpts S f = [] \<and> feature_trks S f = [] \<and>
      GeoJsonToGpx S (FeatureCollection (fs @ f # fs')) options
        = GeoJsonToGpx S (FeatureCollection (fs @ fs')) options \<and>
      childElements ''wpt'' (gpxElement S (Feature f) options) = [] \<and>
      childElements ''trk'' (gpxElement S (Feature f) options) = []) \<and>
   childElements ''wpt'' (gpxElement S (OtherType ty) options) = [] \<and>
   childElements ''trk'' (gpxElement S (OtherType ty) options) = [] \<and>
   childNodes (gpxElement S (OtherType ty) options) = map ElementNode (metadata_part S options)"
proof -
  have doc: "\<exists>root. GeoJsonToGpx S geoJson options =
        Document [ProcessingInstruction ''xml'' ''version=\"1.0\" encoding=\"UTF-8\"'',
                  DocElement root] \<and> tagName root = ''gpx''"
    by (simp add: GeoJsonToGpx_def createDocument_def gpxElement_Element)
  have skip: "interpretFeature S st f = st \<and> feature_wpts S f = [] \<and> feature_trks S f = [] \<and>
      GeoJsonToGpx S (FeatureCollection (fs @ f # fs')) options
        = GeoJsonToGpx S (FeatureCollection (fs @ fs')) options \<and>
      childElements ''wpt'' (gpxElement S (Feature f) options) = [] \<and>
      childElements ''trk'' (gpxElement S (Feature f) options) = []"
    if "(\<exists>cs. geometry f = Polygon cs) \<or> (\<exists>t. geometry f = OtherGeometry t)"
  proof -
    from that have st: "interpretFeature S st f = st" for st
      by (auto simp add: interpretFeature_def)
    have w: "feature_wpts S f = []" and t: "feature_trks S f = []"
      by (simp_all add: feature_wpts_def feature_trks_def st)
    have "gpxElement S (FeatureCollection (fs @ f # fs')) options
            = gpxElement S (FeatureCollection (fs @ fs')) options"
      by (simp add: gpxElement_Element traversal_def w t)
    then have "GeoJsonToGpx S (FeatureCollection (fs @ f # fs')) options
                 = GeoJsonToGpx S (FeatureCollection (fs @ fs')) options"
      by (simp add: GeoJsonToGpx_def)
    with st w t show ?thesis
      by (simp add: childElements_gpx_wpt childElements_gpx_trk traversal_def)
  qed
  have other: "childElements ''wpt'' (gpxElement S (OtherType ty) options) = [] \<and>
     childElements ''trk'' (gpxElement S (OtherType ty) options) = [] \<and>
     childNodes (gpxElement S (OtherType ty) options) = map ElementNode (metadata_part S options)"
  proof (intro conjI)
    show "childElements ''wpt'' (gpxElement S (OtherType ty) options) = []"
      by (simp add: childElements_gpx_wpt traversal_def)
    show "childElements ''trk'' (gpxElement S (OtherType ty) options) = []"
      by (simp add: childElements_gpx_trk traversal_def)
    show "childNodes (gpxElement S (OtherType ty) options)
            = map ElementNode (metadata_part S options)"
      by (simp add: gpxElement_Element traversal_def)
  qed
  have typed: "GeoJsonToGpx_js S (Val (typed_GeoJson geoJson)) (typed_Options options)
     = Inr (GeoJsonToGpx S geoJson options)"
    by (rule GeoJsonToGpx_js_typed)
  have unread: "interpretFeature_js S st
       (Val \<lparr>geometry_js = Val (Polygon_js rings), properties_js = props\<rparr>) = Inr st \<and>
     interpretFeature_js S st
       (Val \<lparr>geometry_js = Val (OtherGeometry_js gty), properties_js = props\<rparr>) = Inr st"
    by (simp add: unread_geometry_js)
  from typed unread doc skip other show ?thesis
    by blast
qed

theorem unsupported_degrade_witness:
  "((\<exists>cs. geometry \<lparr>geometry = Polygon [[[0, 0], [0, 1], [1, 1], [0, 0]]],
                        properties = JNull :: int jsval\<rparr> = Polygon cs) \<or>
    (\<exists>t. geometry \<lparr>geometry = Polygon [[[0, 0], [0, 1], [1, 1], [0, 0]]],
                        properties = JNull :: int jsval\<rparr> = OtherGeometry t)) \<and>
   GeoJsonToGpx (\<lambda>n::int. ''7'')
     (FeatureCollection
        [\<lparr>geometry = Point [7, 7], properties = JNull\<rparr>,
         \<lparr>geometry = Polygon [[[0, 0], [0, 1], [1, 1], [0, 0]]], properties = JNull\<rparr>,
         \<lparr>geometry = LineString [[7, 7]], properties = JNull\<rparr>]) None
   = GeoJsonToGpx (\<lambda>n::int. ''7'')
     (FeatureCollection
        [\<lparr>geometry = Point [7, 7], properties = JNull\<rparr>,
         \<lparr>geometry = LineString [[7, 7]], properties = JNull\<rparr>]) None"
  using unsupported_degrade
    [where S = "\<lambda>n::int. ''7''" and options = None
       and f = "\<lparr>geometry = Polygon [[[0, 0], [0, 1], [1, 1], [0, 0]]], properties = JNull\<rparr>"
       and fs = "[\<lparr>geometry = Point [7, 7], properties = JNull\<rparr>]"
       and fs' = "[\<lparr>geometry = LineString [[7, 7]], properties = JNull\<rparr>]"]
  by simp

text \<open>A feature with a \<^verbatim>\<open>null\<close> geometry, and no options: the run ends in the error.\<close>

theorem null_geometry_raises:
  "GeoJsonToGpx_js (\<lambda>n::int. ''7'')
     (Val (Feature_js \<lparr>geometry_js = Null, properties_js = JNull\<rparr>)) Undef
   = Inl TypeError"
  by (simp add: GeoJsonToGpx_js_def gpxElement_js_def addMetadata_js_def
      processGeoJson_js_def interpretFeature_js_def)

text \<open>
  Claim C8. The root \<^verbatim>\<open>gpx\<close> element of the returned document has the two attributes
  \<^verbatim>\<open>version\<close>, with value \<^verbatim>\<open>1.1\<close>, and \<^verbatim>\<open>creator\<close>, once each. When the options are
  omitted, the creator is \<^verbatim>\<open>@dwayneparton/geojson-to-gpx\<close> and no element of the document
  is a \<^verbatim>\<open>metadata\<close> element.
\<close>

theorem root_attributes:
  "documentElement (GeoJsonToGpx S geoJson options) = Some (gpxElement S geoJson options) \<and>
   tagName (gpxElement S geoJson options) = ''gpx'' \<and>
   attributes (gpxElement S geoJson options)
     = [(''version'', ''1.1''), (''creator'', creatorOf options)] \<and>
   attributes (gpxElement S geoJson None)
     = [(''version'', ''1.1''), (''creator'', ''@dwayneparton/geojson-to-gpx'')] \<and>
   ''metadata'' \<notin> set (tagsOf (gpxElement S geoJson None))"
proof -
  have "''metadata'' \<notin> set (tagsOf (gpxElement S geoJson None))"
    by (rule no_metadata_gpx) (simp add: metadata_part_def)
  then show ?thesis
    by (simp add: documentElement_GeoJsonToGpx gpxElement_Element creatorOf_def
        defaultPackageName_def)
qed

text \<open>
  Claim C5. Property copying appends to an element, after the children it has, the leaves of
  the whitelist and changes nothing else. Every leaf it appends carries a key of the whitelist
  whose value in the bag is a non-empty string; two bags that agree on the whitelist give the
  same element, so every other key is ignored; a whitelisted key whose value is not a string
  adds no child of that name; and a bag that is not an object (absent, \<^verbatim>\<open>null\<close>, a number)
  leaves the element as it is, the element being created all the same. The whitelist is
  \<^verbatim>\<open>name, desc, src, type\<close> for \<^verbatim>\<open>wpt\<close>, \<^verbatim>\<open>trkpt\<close> and \<^verbatim>\<open>trk\<close>, and
  \<^verbatim>\<open>text, type\<close> for \<^verbatim>\<open>link\<close>.
\<close>

theorem whitelisted_properties:
  "addSupportedPropertiesFromObject S el supports props
     = Element (namespaceURI el) (tagName el) (attributes el)
         (childNodes el @ property_leaves supports props) \<and>
   (n \<in> set (property_leaves supports props) \<longrightarrow>
      (\<exists>obj key s. props = JObj obj \<and> key \<in> set supports \<and> obj key = JStr s \<and> s \<noteq> [] \<and>
         n = leaf key s)) \<and>
   ((\<forall>key \<in> set supports. obj key = obj' key) \<longrightarrow>
      addSupportedPropertiesFromObject S el supports (JObj obj)
        = addSupportedPropertiesFromObject S el supports (JObj obj')) \<and>
   ((\<forall>s. obj key \<noteq> JStr s) \<longrightarrow>
      addSupportedProperty S supports obj el key = el \<and>
      childElements key (addSupportedPropertiesFromObject S el supports (JObj obj))
        = childElements key el) \<and>
   ((\<forall>obj. bag \<noteq> JObj obj) \<longrightarrow>
      addSupportedPropertiesFromObject S el supports bag = el \<and>
      createTrk S bag = Element gpx_ns ''trk'' [] [] \<and>
      createPt S ty position bag = createPt S ty position JUndefined) \<and>
   createPt S ty position props
     = addSupportedPropertiesFromObject S (createPt S ty position JUndefined)
         [''name'', ''desc'', ''src'', ''type''] props \<and>
   createTrk S props
     = addSupportedPropertiesFromObject S (createElementWithNS ''trk'')
         [''name'', ''desc'', ''src'', ''type''] props \<and>
   (link_href l = Some h \<and> h \<noteq> [] \<longrightarrow>
      createLinkInParentElement S parent l
        = appendChild parent
            (ElementNode
               (addSupportedPropertiesFromObject S
                  (setAttribute (createElementWithNS ''link'') ''href'' h)
                  [''text'', ''type''] (Link_object l))))"
proof (intro conjI impI)
  show "addSupportedPropertiesFromObject S el supports props
     = Element (namespaceURI el) (tagName el) (attributes el)
         (childNodes el @ property_leaves supports props)"
    by (rule addSupported_parts)
next
  assume "n \<in> set (property_leaves supports props)"
  then show "\<exists>obj key s. props = JObj obj \<and> key \<in> set supports \<and> obj key = JStr s \<and> s \<noteq> [] \<and>
         n = leaf key s"
    by (rule property_leaves_member)
next
  assume "\<forall>key \<in> set supports. obj key = obj' key"
  then show "addSupportedPropertiesFromObject S el supports (JObj obj)
        = addSupportedPropertiesFromObject S el supports (JObj obj')"
    by (simp only: addSupported_parts property_leaves_cong)
next
  assume ns: "\<forall>s. obj key \<noteq> JStr s"
  then show "addSupportedProperty S supports obj el key = el"
    by (cases "obj key") (simp_all add: addSupportedProperty_def)
  from ns have "copied obj key = []"
    by (cases "obj key") (simp_all add: copied_def)
  then show "childElements key (addSupportedPropertiesFromObject S el supports (JObj obj))
        = childElements key el"
    by (rule childElements_dropped)
next
  assume no: "\<forall>obj. bag \<noteq> JObj obj"
  then show "addSupportedPropertiesFromObject S el supports bag = el"
    by (cases bag) (simp_all add: addSupportedPropertiesFromObject_def)
  from no show "createTrk S bag = Element gpx_ns ''trk'' [] []"
    by (simp add: createTrk_Element not_object_leaves)
  from no show "createPt S ty position bag = createPt S ty position JUndefined"
    by (simp add: createPt_Element not_object_leaves)
next
  show "createPt S ty position props
     = addSupportedPropertiesFromObject S (createPt S ty position JUndefined)
         [''name'', ''desc'', ''src'', ''type''] props"
    by (simp add: createPt_Element addSupported_Element not_object_leaves)
next
  show "createTrk S props
     = addSupportedPropertiesFromObject S (createElementWithNS ''trk'')
         [''name'', ''desc'', ''src'', ''type''] props"
    by (simp add: createTrk_def)
next
  assume "link_href l = Some h \<and> h \<noteq> []"
  then show "createLinkInParentElement S parent l
        = appendChild parent
            (ElementNode
               (addSupportedPropertiesFromObject S
                  (setAttribute (createElementWithNS ''link'') ''href'' h)
                  [''text'', ''type''] (Link_object l)))"
    by (simp add: createLinkInParentElement_def)
qed

theorem whitelisted_properties_witness:
  "addSupportedPropertiesFromObject (\<lambda>n::int. ''7'') (createElementWithNS ''trk'')
     [''name'', ''desc'', ''src'', ''type'']
     (JObj ((\<lambda>k. JUndefined)(''name'' := JStr ''Camp'', ''desc'' := JNum (3::int),
                              ''color'' := JStr ''red'')))
   = addSupportedPropertiesFromObject (\<lambda>n::int. ''7'') (createElementWithNS ''trk'')
     [''name'', ''desc'', ''src'', ''type'']
     (JObj ((\<lambda>k. JUndefined)(''name'' := JStr ''Camp'', ''desc'' := JNum (3::int)))) \<and>
   childElements ''desc''
     (addSupportedPropertiesFromObject (\<lambda>n::int. ''7'') (createElementWithNS ''trk'')
        [''name'', ''desc'', ''src'', ''type'']
        (JObj ((\<lambda>k. JUndefined)(''name'' := JStr ''Camp'', ''desc'' := JNum (3::int),
                                 ''color'' := JStr ''red''))))
   = [] \<and>
   addSupportedPropertiesFromObject (\<lambda>n::int. ''7'') (createElementWithNS ''trk'')
     [''name'', ''desc'', ''src'', ''type''] JNull
   = createElementWithNS ''trk'' \<and>
   (\<exists>obj key s.
      JObj ((\<lambda>k. JUndefined)(''name'' := JStr ''Camp'', ''desc'' := JNum (3::int),
                              ''color'' := JStr ''red'')) = JObj obj \<and>
      key \<in> set [''name'', ''desc'', ''src'', ''type''] \<and> obj key = JStr s \<and> s \<noteq> [] \<and>
      leaf ''name'' ''Camp'' = leaf key s) \<and>
   createLinkInParentElement (\<lambda>n::int. ''7'') (createElementWithNS ''metadata'')
     \<lparr>link_href = Some ''http://example.org'', link_text = Some ''home'', link_type = None\<rparr>
   = Element gpx_ns ''metadata'' []
       [ElementNode (Element gpx_ns ''link'' [(''href'', ''http://example.org'')]
          [leaf ''text'' ''home''])]"
proof -
  let ?S = "\<lambda>n::int. ''7''"
  let ?el = "createElementWithNS ''trk''"
  let ?supports = "[''name'', ''desc'', ''src'', ''type'']"
  let ?obj = "(\<lambda>k. JUndefined)(''name'' := JStr ''Camp'', ''desc'' := JNum (3::int),
                              ''color'' := JStr ''red'')"
  let ?obj' = "(\<lambda>k. JUndefined)(''name'' := JStr ''Camp'', ''desc'' := JNum (3::int))"
  let ?l = "\<lparr>link_href = Some ''http://example.org'', link_text = Some ''home'',
             link_type = None\<rparr>"
  note w = whitelisted_properties
    [where S = ?S and el = ?el and supports = ?supports and props = "JObj ?obj"
       and n = "leaf ''name'' ''Camp''" and obj = ?obj and obj' = ?obj'
       and key = "''desc''" and bag = JNull and l = ?l and h = "''http://example.org''"
       and parent = "createElementWithNS ''metadata''"]
  have h1: "leaf ''name'' ''Camp'' \<in> set (property_leaves ?supports (JObj ?obj))"
    by (simp add: property_leaves_def copied_def)
  have h2: "\<forall>key \<in> set ?supports. ?obj key = ?obj' key"
    by simp
  have h3: "\<forall>s. ?obj ''desc'' \<noteq> JStr s"
    by simp
  have h4: "\<forall>obj. (JNull :: int jsval) \<noteq> JObj obj"
    by simp
  have h5: "link_href ?l = Some ''http://example.org'' \<and> ''http://example.org'' \<noteq> []"
    by simp
  from w h1 have c1: "\<exists>obj key s. JObj ?obj = JObj obj \<and> key \<in> set ?supports \<and>
      obj key = JStr s \<and> s \<noteq> [] \<and> leaf ''name'' ''Camp'' = leaf key s"
    by blast
  from w h2 have c2: "addSupportedPropertiesFromObject ?S ?el ?supports (JObj ?obj)
      = addSupportedPropertiesFromObject ?S ?el ?supports (JObj ?obj')"
    by blast
  from w h3 have "childElements ''desc'' (addSupportedPropertiesFromObject ?S ?el ?supports (JObj ?obj))
      = childElements ''desc'' ?el"
    by blast
  then have c3: "childElements ''desc''
      (addSupportedPropertiesFromObject ?S ?el ?supports (JObj ?obj)) = []"
    by (simp add: childElements_def elementsTagged_def createElementWithNS_def)
  from w h4 have c4: "addSupportedPropertiesFromObject ?S ?el ?supports JNull = ?el"
    by blast
  from w h5 have "createLinkInParentElement ?S (createElementWithNS ''metadata'') ?l
      = appendChild (createElementWithNS ''metadata'')
            (ElementNode
               (addSupportedPropertiesFromObject ?S
                  (setAttribute (createElementWithNS ''link'') ''href'' ''http://example.org'')
                  [''text'', ''type''] (Link_object ?l)))"
    by blast
  then have c5: "createLinkInParentElement ?S (createElementWithNS ''metadata'') ?l
      = Element gpx_ns ''metadata'' []
       [ElementNode (Element gpx_ns ''link'' [(''href'', ''http://example.org'')]
          [leaf ''text'' ''home''])]"
    by (simp add: createElementWithNS_def addSupported_Element property_leaves_Link_object
        nonempty_leaf_def)
  from c1 c2 c3 c4 c5 show ?thesis
    by (intro conjI)
qed

text \<open>
  Claim C6. When the options have a \<^verbatim>\<open>metadata\<close> object, the root has exactly one
  \<^verbatim>\<open>metadata\<close> child, which is its first child, and the children of that element are, in
  this order: a \<^verbatim>\<open>name\<close> leaf and a \<^verbatim>\<open>desc\<close> leaf (each when the field is defined); an
  \<^verbatim>\<open>author\<close> element (when \<^verbatim>\<open>meta.author\<close> is an object) with a \<^verbatim>\<open>name\<close> leaf, an
  \<^verbatim>\<open>email\<close> leaf and a \<^verbatim>\<open>link\<close> element (when \<^verbatim>\<open>meta.author.link\<close> is an object with
  a non-empty \<^verbatim>\<open>href\<close>); a \<^verbatim>\<open>copyright\<close> element (when \<^verbatim>\<open>meta.copyright\<close> is an object)
  with an \<^verbatim>\<open>author\<close> attribute (when that field is a non-empty string) and \<^verbatim>\<open>year\<close> and
  \<^verbatim>\<open>license\<close> leaves; a \<^verbatim>\<open>link\<close> element (when \<^verbatim>\<open>meta.link\<close> is an object with a
  non-empty \<^verbatim>\<open>href\<close>); a \<^verbatim>\<open>time\<close> leaf and a \<^verbatim>\<open>keywords\<close> leaf. The \<^verbatim>\<open>bounds\<close>
  field changes neither the \<^verbatim>\<open>metadata\<close> element nor the document. With no options, or
  options without \<^verbatim>\<open>metadata\<close>, no element of the document is a \<^verbatim>\<open>metadata\<close> element.
\<close>

theorem metadata_element:
  "documentElement (GeoJsonToGpx S geoJson (Some (opts\<lparr>metadata := Some meta\<rparr>)))
     = Some (gpxElement S geoJson (Some (opts\<lparr>metadata := Some meta\<rparr>))) \<and>
   childElements ''metadata'' (gpxElement S geoJson (Some (opts\<lparr>metadata := Some meta\<rparr>)))
     = [createMetadata S meta] \<and>
   take 1 (childNodes (gpxElement S geoJson (Some (opts\<lparr>metadata := Some meta\<rparr>))))
     = [ElementNode (createMetadata S meta)] \<and>
   createMetadata S meta =
     Element gpx_ns ''metadata'' []
       (opt_leaf ''name'' (meta_name meta) @ opt_leaf ''desc'' (meta_desc meta) @
        (case meta_author meta of None \<Rightarrow> [] | Some p \<Rightarrow> [ElementNode (createAuthor S p)]) @
        (case meta_copyright meta of None \<Rightarrow> [] | Some c \<Rightarrow> [ElementNode (createCopyright S c)]) @
        link_part (meta_link meta) @
        opt_leaf ''time'' (meta_time meta) @ opt_leaf ''keywords'' (meta_keywords meta)) \<and>
   createAuthor S p =
     Element gpx_ns ''author'' []
       (opt_leaf ''name'' (person_name p) @ opt_leaf ''email'' (person_email p) @
        link_part (person_link p)) \<and>
   createCopyright S c =
     Element gpx_ns ''copyright''
       (case copyright_author c of None \<Rightarrow> [] | Some a \<Rightarrow> if a = [] then [] else [(''author'', a)])
       (opt_leaf ''year'' (copyright_year c) @ opt_leaf ''license'' (copyright_license c)) \<and>
   createMetadata S (meta\<lparr>meta_bounds := b\<rparr>) = createMetadata S meta \<and>
   GeoJsonToGpx S geoJson (Some (opts\<lparr>metadata := Some (meta\<lparr>meta_bounds := b\<rparr>)\<rparr>))
     = GeoJsonToGpx S geoJson (Some (opts\<lparr>metadata := Some meta\<rparr>)) \<and>
   ''metadata'' \<notin> set (tagsOf (gpxElement S geoJson None)) \<and>
   ''metadata'' \<notin> set (tagsOf (gpxElement S geoJson (Some (opts\<lparr>metadata := None\<rparr>))))"
proof (intro conjI)
  show "documentElement (GeoJsonToGpx S geoJson (Some (opts\<lparr>metadata := Some meta\<rparr>)))
     = Some (gpxElement S geoJson (Some (opts\<lparr>metadata := Some meta\<rparr>)))"
    by (rule documentElement_GeoJsonToGpx)
  show "childElements ''metadata'' (gpxElement S geoJson (Some (opts\<lparr>metadata := Some meta\<rparr>)))
     = [createMetadata S meta]"
    by (simp add: childElements_gpx_metadata metadata_part_def)
  show "take 1 (childNodes (gpxElement S geoJson (Some (opts\<lparr>metadata := Some meta\<rparr>))))
     = [ElementNode (createMetadata S meta)]"
    by (simp add: gpxElement_Element metadata_part_def)
  show "createMetadata S meta =
     Element gpx_ns ''metadata'' []
       (opt_leaf ''name'' (meta_name meta) @ opt_leaf ''desc'' (meta_desc meta) @
        (case meta_author meta of None \<Rightarrow> [] | Some p \<Rightarrow> [ElementNode (createAuthor S p)]) @
        (case meta_copyright meta of None \<Rightarrow> [] | Some c \<Rightarrow> [ElementNode (createCopyright S c)]) @
        link_part (meta_link meta) @
        opt_leaf ''time'' (meta_time meta) @ opt_leaf ''keywords'' (meta_keywords meta))"
    by (rule createMetadata_Element)
  show "createAuthor S p =
     Element gpx_ns ''author'' []
       (opt_leaf ''name'' (person_name p) @ opt_leaf ''email'' (person_email p) @
        link_part (person_link p))"
    by (rule createAuthor_Element)
  show "createCopyright S c =
     Element gpx_ns ''copyright''
       (case copyright_author c of None \<Rightarrow> [] | Some a \<Rightarrow> if a = [] then [] else [(''author'', a)])
       (opt_leaf ''year'' (copyright_year c) @ opt_leaf ''license'' (copyright_license c))"
    by (rule createCopyright_Element)
  show bounds: "createMetadata S (meta\<lparr>meta_bounds := b\<rparr>) = createMetadata S meta"
    by (simp add: createMetadata_def)
  have "gpxElement S geoJson (Some (opts\<lparr>metadata := Some (meta\<lparr>meta_bounds := b\<rparr>)\<rparr>))
          = gpxElement S geoJson (Some (opts\<lparr>metadata := Some meta\<rparr>))"
    by (simp add: gpxElement_def creatorOf_def bounds)
  then show "GeoJsonToGpx S geoJson (Some (opts\<lparr>metadata := Some (meta\<lparr>meta_bounds := b\<rparr>)\<rparr>))
     = GeoJsonToGpx S geoJson (Some (opts\<lparr>metadata := Some meta\<rparr>))"
    by (simp add: GeoJsonToGpx_def)
  show "''metadata'' \<notin> set (tagsOf (gpxElement S geoJson None))"
    by (rule no_metadata_gpx) (simp add: metadata_part_def)
  show "''metadata'' \<notin> set (tagsOf (gpxElement S geoJson (Some (opts\<lparr>metadata := None\<rparr>))))"
    by (rule no_metadata_gpx) (simp add: metadata_part_def)
qed

text \<open>
  Claim C7. The link factory changes the parent exactly when \<^verbatim>\<open>href\<close> is a non-empty
  string. With an absent or empty \<^verbatim>\<open>href\<close> the parent is returned as it is, whatever
  \<^verbatim>\<open>text\<close> and \<^verbatim>\<open>type\<close> are; with a non-empty \<^verbatim>\<open>href\<close> the parent gets one more child,
  a \<^verbatim>\<open>link\<close> element with the one attribute \<^verbatim>\<open>href\<close> and with a \<^verbatim>\<open>text\<close> and a
  \<^verbatim>\<open>type\<close> leaf for each of the two fields that is a non-empty string.
\<close>

theorem link_factory:
  "(link_href l = None \<or> link_href l = Some [] \<longrightarrow>
      createLinkInParentElement S parent l = parent) \<and>
   (link_href l = Some h \<and> h \<noteq> [] \<longrightarrow>
      createLinkInParentElement S parent l
        = appendChild parent
            (ElementNode (Element gpx_ns ''link'' [(''href'', h)]
               (nonempty_leaf ''text'' (link_text l) @ nonempty_leaf ''type'' (link_type l))))) \<and>
   (createLinkInParentElement S parent l \<noteq> parent
      \<longleftrightarrow> (\<exists>h. link_href l = Some h \<and> h \<noteq> [])) \<and>
   nonempty_leaf tag None = [] \<and> nonempty_leaf tag (Some []) = [] \<and>
   nonempty_leaf tag (Some (c # s)) = [ElementNode (Element gpx_ns tag [] [TextNode (c # s)])]"
proof -
  obtain ns t as cs where parent: "parent = Element ns t as cs"
    by (cases parent)
  have closed: "createLinkInParentElement S (Element ns t as cs) l
                  = Element ns t as (cs @ link_part (Some l))"
    by (rule createLink_Element)
  have "link_href l = None \<or> link_href l = Some [] \<Longrightarrow>
          createLinkInParentElement S parent l = parent"
    by (auto simp add: closed parent link_part_def)
  moreover have "link_href l = Some h \<and> h \<noteq> [] \<Longrightarrow>
      createLinkInParentElement S parent l
        = appendChild parent
            (ElementNode (Element gpx_ns ''link'' [(''href'', h)]
               (nonempty_leaf ''text'' (link_text l) @ nonempty_leaf ''type'' (link_type l))))"
    by (simp add: closed parent link_part_def link_element_def)
  moreover have "createLinkInParentElement S parent l \<noteq> parent
      \<longleftrightarrow> (\<exists>h. link_href l = Some h \<and> h \<noteq> [])"
    by (cases "link_href l") (simp_all add: closed parent link_part_def)
  moreover have "nonempty_leaf tag None = [] \<and> nonempty_leaf tag (Some []) = [] \<and>
     nonempty_leaf tag (Some (c # s)) = [ElementNode (Element gpx_ns tag [] [TextNode (c # s)])]"
    by (simp add: nonempty_leaf_def leaf_def leafElement_def)
  ultimately show ?thesis by blast
qed

theorem link_factory_witness:
  "(link_href \<lparr>link_href = Some [], link_text = Some ''home'', link_type = Some ''text/html''\<rparr>
      = None \<or>
    link_href \<lparr>link_href = Some [], link_text = Some ''home'', link_type = Some ''text/html''\<rparr>
      = Some []) \<and>
   createLinkInParentElement (\<lambda>n::int. ''7'') (createElementWithNS ''author'')
     \<lparr>link_href = Some [], link_text = Some ''home'', link_type = Some ''text/html''\<rparr>
   = createElementWithNS ''author'' \<and>
   link_href \<lparr>link_href = Some ''http://example.org'', link_text = Some ''home'',
              link_type = Some []\<rparr> = Some ''http://example.org'' \<and>
   ''http://example.org'' \<noteq> [] \<and>
   createLinkInParentElement (\<lambda>n::int. ''7'') (createElementWithNS ''author'')
     \<lparr>link_href = Some ''http://example.org'', link_text = Some ''home'', link_type = Some []\<rparr>
   = Element gpx_ns ''author'' []
       [ElementNode (Element gpx_ns ''link'' [(''href'', ''http://example.org'')]
          [ElementNode (Element gpx_ns ''text'' [] [TextNode ''home''])])]"
  using link_factory
    [where S = "\<lambda>n::int. ''7''" and parent = "createElementWithNS ''author''"
       and l = "\<lparr>link_href = Some [], link_text = Some ''home'',
                  link_type = Some ''text/html''\<rparr>"]
    link_factory
    [where S = "\<lambda>n::int. ''7''" and parent = "createElementWithNS ''author''"
       and l = "\<lparr>link_href = Some ''http://example.org'', link_text = Some ''home'',
                  link_type = Some []\<rparr>"
       and h = "''http://example.org''" and tag = "''text''" and c = "CHR ''h''" and s = "''ome''"]
  by (simp add: createElementWithNS_def nonempty_leaf_def)

text \<open>
  Claim C10. A whitelisted key whose value is the empty string adds no leaf: the round of the
  loop for that key leaves the element as it is, the finished element has no more children of
  that name than before, and no leaf that property copying appends has an empty text. The same
  holds of the \<^verbatim>\<open>text\<close> and \<^verbatim>\<open>type\<close> fields of a \<^verbatim>\<open>Link\<close>.
\<close>

theorem empty_string_dropped:
  "(obj key = JStr [] \<longrightarrow>
      addSupportedProperty S supports obj el key = el \<and>
      childElements key (addSupportedPropertiesFromObject S el supports (JObj obj))
        = childElements key el) \<and>
   leaf key [] \<notin> set (property_leaves supports props) \<and>
   childNodes (addSupportedPropertiesFromObject S el supports props)
     = childNodes el @ property_leaves supports props \<and>
   (link_href l = Some h \<and> h \<noteq> [] \<and> link_text l = Some [] \<longrightarrow>
      createLinkInParentElement S parent l
        = appendChild parent
            (ElementNode (Element gpx_ns ''link'' [(''href'', h)]
               (nonempty_leaf ''type'' (link_type l))))) \<and>
   (link_href l = Some h \<and> h \<noteq> [] \<and> link_type l = Some [] \<longrightarrow>
      createLinkInParentElement S parent l
        = appendChild parent
            (ElementNode (Element gpx_ns ''link'' [(''href'', h)]
               (nonempty_leaf ''text'' (link_text l)))))"
proof (intro conjI impI)
  assume e: "obj key = JStr []"
  then show "addSupportedProperty S supports obj el key = el"
    by (simp add: addSupportedProperty_def)
  from e have "copied obj key = []"
    by (simp add: copied_def)
  then show "childElements key (addSupportedPropertiesFromObject S el supports (JObj obj))
        = childElements key el"
    by (rule childElements_dropped)
next
  show "leaf key [] \<notin> set (property_leaves supports props)"
    by (rule leaf_empty_notin)
next
  show "childNodes (addSupportedPropertiesFromObject S el supports props)
     = childNodes el @ property_leaves supports props"
    by (simp add: addSupported_parts)
next
  assume "link_href l = Some h \<and> h \<noteq> [] \<and> link_text l = Some []"
  then show "createLinkInParentElement S parent l
        = appendChild parent
            (ElementNode (Element gpx_ns ''link'' [(''href'', h)]
               (nonempty_leaf ''type'' (link_type l))))"
    by (cases parent)
      (simp add: createLink_Element link_part_def link_element_def nonempty_leaf_def)
next
  assume "link_href l = Some h \<and> h \<noteq> [] \<and> link_type l = Some []"
  then show "createLinkInParentElement S parent l
        = appendChild parent
            (ElementNode (Element gpx_ns ''link'' [(''href'', h)]
               (nonempty_leaf ''text'' (link_text l))))"
    by (cases parent)
      (simp add: createLink_Element link_part_def link_element_def nonempty_leaf_def)
qed

theorem empty_string_dropped_witness:
  "((\<lambda>k. JUndefined)(''name'' := JStr [], ''desc'' := JStr ''far'')) ''name''
     = (JStr [] :: int jsval) \<and>
   link_href \<lparr>link_href = Some ''http://example.org'', link_text = Some [], link_type = Some []\<rparr>
     = Some ''http://example.org'' \<and>
   ''http://example.org'' \<noteq> [] \<and>
   link_text \<lparr>link_href = Some ''http://example.org'', link_text = Some [], link_type = Some []\<rparr>
     = Some [] \<and>
   link_type \<lparr>link_href = Some ''http://example.org'', link_text = Some [], link_type = Some []\<rparr>
     = Some [] \<and>
   childElements ''name''
     (addSupportedPropertiesFromObject (\<lambda>n::int. ''7'') (createElementWithNS ''wpt'')
        [''name'', ''desc'', ''src'', ''type'']
        (JObj ((\<lambda>k. JUndefined)(''name'' := JStr [], ''desc'' := JStr ''far'')))) = [] \<and>
   createLinkInParentElement (\<lambda>n::int. ''7'') (createElementWithNS ''metadata'')
     \<lparr>link_href = Some ''http://example.org'', link_text = Some [], link_type = Some []\<rparr>
   = Element gpx_ns ''metadata'' []
       [ElementNode (Element gpx_ns ''link'' [(''href'', ''http://example.org'')] [])]"
  using empty_string_dropped
    [where S = "\<lambda>n::int. ''7''" and el = "createElementWithNS ''wpt''"
       and supports = "[''name'', ''desc'', ''src'', ''type'']"
       and obj = "(\<lambda>k. JUndefined)(''name'' := JStr [], ''desc'' := JStr ''far'')"
       and key = "''name''" and parent = "createElementWithNS ''metadata''"
       and l = "\<lparr>link_href = Some ''http://example.org'', link_text = Some [],
                  link_type = Some []\<rparr>"
       and h = "''http://example.org''"]
  by (simp add: createElementWithNS_def childElements_def elementsTagged_def nonempty_leaf_def)

end
